theory Spec2Isabelle
  imports Complex_Main
begin

section \<open>Stock transfers: ledger posting and back-reference reconciliation\<close>

text \<open>
  A shallow embedding of \<^verbatim>\<open>models/inventory/StockTransfer.ts\<close>.

  Numbers. The quantities of the source are JavaScript numbers and its amounts are
  \<^verbatim>\<open>Money\<close> values of the pesa library; both are modelled as rationals
  (\<^typ>\<open>rat\<close>). The first definitions compute with them exactly. Where a property
  depends on the rounding of doubles, the definitions that make the rounding explicit
  are used (see the subsection on double arithmetic). \<^verbatim>\<open>NaN\<close> and the infinities
  are outside the model throughout.

  Optional fields. Every field of a document is declared optional in the source
  (\<^verbatim>\<open>items?\<close>, \<^verbatim>\<open>grandTotal?\<close>, the assertions \<^verbatim>\<open>row.item!\<close>); an optional
  field is an \<^typ>\<open>'a option\<close> with \<^const>\<open>None\<close> for \<^verbatim>\<open>undefined\<close>.
\<close>

subsection \<open>Data model\<close>

text \<open>The members of \<^verbatim>\<open>ModelNameEnum\<close> that the source file names.\<close>

datatype ModelNameEnum =
  Shipment | PurchaseReceipt | SalesInvoice | PurchaseInvoice | InventorySettings | Account

text \<open>
  Modelled from the spec: \<^verbatim>\<open>fyo.doc.getDoc\<close> is not part of the source file; a load
  that fails is the spec's PersistenceFailure, propagated unchanged to the caller.
  The other error, \<^verbatim>\<open>ValidationError\<close> with its message, is the one that
  \<^verbatim>\<open>validateAccounts\<close> throws in the source.
\<close>

datatype error = ValidationError string | PersistenceFailure

text \<open>A line of a stock transfer (\<^verbatim>\<open>StockTransferItem\<close>).\<close>

record StockTransferItem =
  item :: "string option"
  rate :: "rat option"
  quantity :: "rat option"
  location :: "string option"

text \<open>
  The fields of \<^verbatim>\<open>StockTransfer\<close> that the modelled methods read.
  \<^verbatim>\<open>isSubmitted\<close> and \<^verbatim>\<open>isCancelled\<close> are getters of the document base class.
\<close>

record StockTransfer =
  schemaName :: ModelNameEnum
  grandTotal :: "rat option"
  backReference :: "string option"
  items :: "StockTransferItem list option"
  isSubmitted :: bool
  isCancelled :: bool

text \<open>The object literal returned for each line by \<^verbatim>\<open>_getTransferDetails\<close>.\<close>

record TransferDetail =
  detail_item :: "string option"
  detail_rate :: "rat option"
  detail_quantity :: "rat option"
  fromLocation :: "string option"
  toLocation :: "string option"

text \<open>
  A line of the linked invoice, with the three fields \<^verbatim>\<open>_updateBackReference\<close>
  reads. The source asserts \<^verbatim>\<open>row.item!\<close> and \<^verbatim>\<open>row.quantity!\<close>, so these two
  are taken as defined; \<^verbatim>\<open>row.stockNotTransferred\<close> is read with a default.
\<close>

record InvoiceItem =
  row_item :: string
  row_quantity :: rat
  row_stockNotTransferred :: "rat option"

record Invoice =
  invoice_items :: "InvoiceItem list option"
  invoice_stockNotTransferred :: "rat option"

text \<open>The documents that \<^verbatim>\<open>fyo.doc.getDoc(schemaName, name)\<close> can load.\<close>

type_synonym docs = "ModelNameEnum \<times> string \<Rightarrow> Invoice option"

text \<open>
  What the methods read from \<^verbatim>\<open>this.fyo\<close>:
  \<^verbatim>\<open>fyo.singles.InventorySettings\<close> (itself optional), the label of a field of the
  inventory settings (\<^verbatim>\<open>fyo.getField(..).label\<close>), and
  \<^verbatim>\<open>fyo.db.exists(ModelNameEnum.Account, value)\<close>.
  Modelled from the spec: the account of the rounding entry is chosen by
  \<^verbatim>\<open>LedgerPosting\<close>, which is not part of the source file; it is a parameter here.
\<close>

record Fyo =
  singles_InventorySettings :: "(string \<Rightarrow> string option) option"
  fieldLabel :: "string \<Rightarrow> string"
  db_exists :: "string \<Rightarrow> bool"
  roundOffAccount :: "string option"

subsection \<open>Direction and transfer details\<close>

definition isSales :: "StockTransfer \<Rightarrow> bool" where
  "isSales t = (schemaName t = Shipment)"

text \<open>\<^verbatim>\<open>this.items ?? []\<close>\<close>

definition itemsOrEmpty :: "StockTransfer \<Rightarrow> StockTransferItem list" where
  "itemsOrEmpty t = (case items t of None \<Rightarrow> [] | Some rows \<Rightarrow> rows)"

definition transferDetail :: "StockTransfer \<Rightarrow> StockTransferItem \<Rightarrow> TransferDetail" where
  "transferDetail t row =
     (let fromLoc = (if isSales t then location row else None);
          toLoc = (if isSales t then None else location row)
      in \<lparr> detail_item = item row, detail_rate = rate row, detail_quantity = quantity row,
           fromLocation = fromLoc, toLocation = toLoc \<rparr>)"

definition getTransferDetails :: "StockTransfer \<Rightarrow> TransferDetail list" where
  "getTransferDetails t = map (transferDetail t) (itemsOrEmpty t)"

subsection \<open>Account validation\<close>

text \<open>\<^verbatim>\<open>this.fyo.singles.InventorySettings?.[setting]\<close>\<close>

definition settingValue :: "Fyo \<Rightarrow> string \<Rightarrow> string option" where
  "settingValue fyo setting =
     (case singles_InventorySettings fyo of None \<Rightarrow> None | Some s \<Rightarrow> s setting)"

text \<open>\<^verbatim>\<open>!value\<close> holds for \<^verbatim>\<open>undefined\<close> and for the empty string.\<close>

definition notSet :: "string option \<Rightarrow> bool" where
  "notSet v = (case v of None \<Rightarrow> True | Some s \<Rightarrow> s = [])"

definition requiredSettings :: "StockTransfer \<Rightarrow> string list" where
  "requiredSettings t =
     [''stockInHand''] @ (if isSales t then [''costOfGoodsSold'']
                           else [''stockReceivedButNotBilled''])"

text \<open>The two message templates; the translation function \<^verbatim>\<open>t\<close> is the identity.\<close>

definition notSetMessage :: "Fyo \<Rightarrow> string \<Rightarrow> string" where
  "notSetMessage fyo setting = fieldLabel fyo setting @ '' account not set in Inventory Settings.''"

definition notExistsMessage :: "string \<Rightarrow> string" where
  "notExistsMessage v = ''Account '' @ v @ '' does not exist.''"

text \<open>The loop over \<^verbatim>\<open>settings\<close>, pushing onto \<^verbatim>\<open>messages\<close>.\<close>

fun collectMessages :: "Fyo \<Rightarrow> string list \<Rightarrow> string list \<Rightarrow> string list" where
  "collectMessages fyo [] messages = messages"
| "collectMessages fyo (setting # settings) messages =
     (let v = settingValue fyo setting in
      if notSet v then collectMessages fyo settings (messages @ [notSetMessage fyo setting])
      else (case v of
              None \<Rightarrow> collectMessages fyo settings messages
            | Some account \<Rightarrow>
                if \<not> db_exists fyo account
                then collectMessages fyo settings (messages @ [notExistsMessage account])
                else collectMessages fyo settings messages))"

text \<open>\<^verbatim>\<open>messages.join(sep)\<close>\<close>

fun join :: "string \<Rightarrow> string list \<Rightarrow> string" where
  "join sep [] = []"
| "join sep [m] = m"
| "join sep (m # m' # ms) = m @ sep @ join sep (m' # ms)"

definition validateAccounts :: "Fyo \<Rightarrow> StockTransfer \<Rightarrow> error + unit" where
  "validateAccounts fyo t =
     (let messages = collectMessages fyo (requiredSettings t) [] in
      if messages \<noteq> [] then Inl (ValidationError (join '' '' messages)) else Inr ())"

subsection \<open>Ledger posting\<close>

text \<open>
  Modelled from the spec: the class \<^verbatim>\<open>LedgerPosting\<close> (its constructor and its
  methods \<^verbatim>\<open>debit\<close>, \<^verbatim>\<open>credit\<close> and \<^verbatim>\<open>makeRoundOffEntry\<close>) is not part of the source
  file. The spec has a posting as an ordered sequence of entries, each with an account,
  an amount and a side, plus an optional balancing rounding entry; after the primary
  lines a rounding entry is appended so that total debits equal total credits.
\<close>

datatype side = Debit | Credit

record LedgerEntry =
  account :: "string option"
  amount :: rat
  entry_side :: side

record LedgerPosting =
  entries :: "LedgerEntry list"
  roundOff :: "LedgerEntry option"

text \<open>Modelled from the spec: a new posting has no entries and no rounding entry.\<close>

definition newLedgerPosting :: LedgerPosting where
  "newLedgerPosting = \<lparr> entries = [], roundOff = None \<rparr>"

text \<open>
  Modelled from the spec: \<^verbatim>\<open>posting.debit(account, amount)\<close> and
  \<^verbatim>\<open>posting.credit(account, amount)\<close> append an entry of that account, amount and
  side to the ordered sequence of entries.
\<close>

definition debit :: "string option \<Rightarrow> rat \<Rightarrow> LedgerPosting \<Rightarrow> LedgerPosting" where
  "debit acc amt p =
     p\<lparr> entries := entries p @ [\<lparr> account = acc, amount = amt, entry_side = Debit \<rparr>] \<rparr>"

definition credit :: "string option \<Rightarrow> rat \<Rightarrow> LedgerPosting \<Rightarrow> LedgerPosting" where
  "credit acc amt p =
     p\<lparr> entries := entries p @ [\<lparr> account = acc, amount = amt, entry_side = Credit \<rparr>] \<rparr>"

text \<open>
  Modelled from the spec: the total debits and the total credits of a posting are taken
  over its entries and its rounding entry.
\<close>

definition allEntries :: "LedgerPosting \<Rightarrow> LedgerEntry list" where
  "allEntries p = entries p @ (case roundOff p of None \<Rightarrow> [] | Some r \<Rightarrow> [r])"

definition sideTotal :: "side \<Rightarrow> LedgerEntry list \<Rightarrow> rat" where
  "sideTotal s es = sum_list (map amount (filter (\<lambda>e. entry_side e = s) es))"

definition totalDebit :: "LedgerPosting \<Rightarrow> rat" where
  "totalDebit p = sideTotal Debit (allEntries p)"

definition totalCredit :: "LedgerPosting \<Rightarrow> rat" where
  "totalCredit p = sideTotal Credit (allEntries p)"

text \<open>
  Modelled from the spec: \<^verbatim>\<open>posting.makeRoundOffEntry()\<close> appends the rounding
  entry, of the difference between the debits and the credits so far and on the side
  that lacks it, so that total debits equal total credits.
\<close>

definition makeRoundOffEntry :: "Fyo \<Rightarrow> LedgerPosting \<Rightarrow> LedgerPosting" where
  "makeRoundOffEntry fyo p =
     (let difference = sideTotal Debit (entries p) - sideTotal Credit (entries p) in
      p\<lparr> roundOff := Some \<lparr> account = roundOffAccount fyo, amount = \<bar>difference\<bar>,
                           entry_side = (if difference > 0 then Credit else Debit) \<rparr> \<rparr>)"

text \<open>
  \<^verbatim>\<open>fyo.getValue(ModelNameEnum.InventorySettings, name)\<close> reads the same settings
  document as \<^verbatim>\<open>fyo.singles.InventorySettings\<close>; the cast \<^verbatim>\<open>as string\<close> checks
  nothing, so an unset value stays \<^verbatim>\<open>undefined\<close>.
\<close>

definition getValue :: "Fyo \<Rightarrow> ModelNameEnum \<Rightarrow> string \<Rightarrow> string option" where
  "getValue fyo schema name = (if schema = InventorySettings then settingValue fyo name else None)"

text \<open>
  \<^verbatim>\<open>getPosting\<close> is declared to return \<^verbatim>\<open>LedgerPosting | null\<close>: the result is an
  option inside the sum, \<^const>\<open>None\<close> standing for \<^verbatim>\<open>null\<close>.
\<close>

definition getPosting :: "Fyo \<Rightarrow> StockTransfer \<Rightarrow> error + LedgerPosting option" where
  "getPosting fyo t =
     (case validateAccounts fyo t of
        Inl e \<Rightarrow> Inl e
      | Inr _ \<Rightarrow>
          (let stockInHand = getValue fyo InventorySettings ''stockInHand'';
               amt = (case grandTotal t of None \<Rightarrow> 0 | Some g \<Rightarrow> g);
               posting = newLedgerPosting;
               posting' =
                 (if isSales t then
                    (let costOfGoodsSold = getValue fyo InventorySettings ''costOfGoodsSold''
                     in credit stockInHand amt (debit costOfGoodsSold amt posting))
                  else
                    (let stockReceivedButNotBilled =
                           getValue fyo InventorySettings ''stockReceivedButNotBilled''
                     in credit stockReceivedButNotBilled amt (debit stockInHand amt posting)))
           in Inr (Some (makeRoundOffEntry fyo posting'))))"

subsection \<open>Transfer map\<close>

text \<open>
  The callback of \<^verbatim>\<open>reduce\<close> in \<^verbatim>\<open>_getTransferMap\<close>. \<^verbatim>\<open>!item.item\<close> holds for an
  undefined and for an empty identifier, \<^verbatim>\<open>!item.quantity\<close> for an undefined and
  for a zero quantity. This definition adds exactly and knows the keys the object owns;
  the rounding of \<^verbatim>\<open>+=\<close> and the keys that the object inherits from its prototype
  are made explicit in \<open>transferMapStepJS\<close> below.
\<close>

definition transferMapStep ::
  "(string \<Rightarrow> rat option) \<Rightarrow> StockTransferItem \<Rightarrow> (string \<Rightarrow> rat option)" where
  "transferMapStep acc it =
     (case item it of
        None \<Rightarrow> acc
      | Some i \<Rightarrow>
          if i = [] then acc
          else (case quantity it of
                  None \<Rightarrow> acc
                | Some q \<Rightarrow>
                    if q = 0 then acc
                    else acc(i \<mapsto> (case acc i of None \<Rightarrow> 0 | Some v \<Rightarrow> v) + q)))"

definition getTransferMap :: "StockTransfer \<Rightarrow> (string \<Rightarrow> rat option)" where
  "getTransferMap t = foldl transferMapStep Map.empty (itemsOrEmpty t)"

subsection \<open>Back-reference reconciliation\<close>

text \<open>\<^verbatim>\<open>(row.stockNotTransferred as number) ?? 0\<close>\<close>

definition notTransferredOf :: "InvoiceItem \<Rightarrow> rat" where
  "notTransferredOf row = (case row_stockNotTransferred row of None \<Rightarrow> 0 | Some n \<Rightarrow> n)"

text \<open>
  The body of the loop over the invoice's lines: the line after \<^verbatim>\<open>row.set\<close> and
  the transfer map after the assignment to \<^verbatim>\<open>transferMap[item]\<close>. A line whose item
  has no entry in the map is left as it is (\<^verbatim>\<open>continue\<close>). Sums and differences are
  exact here; \<open>updateRowJS\<close> below has them rounded as the operations on doubles are.
\<close>

definition updateRow ::
  "bool \<Rightarrow> InvoiceItem \<Rightarrow> (string \<Rightarrow> rat option) \<Rightarrow> InvoiceItem \<times> (string \<Rightarrow> rat option)" where
  "updateRow cancelled row transferMap =
     (let i = row_item row;
          q = row_quantity row;
          notTransferred = notTransferredOf row
      in case transferMap i of
           None \<Rightarrow> (row, transferMap)
         | Some transferred \<Rightarrow>
             if cancelled then
               (row\<lparr> row_stockNotTransferred := Some (min (notTransferred + transferred) q) \<rparr>,
                transferMap(i \<mapsto> max (transferred + notTransferred - q) 0))
             else
               (row\<lparr> row_stockNotTransferred := Some (max (notTransferred - transferred) 0) \<rparr>,
                transferMap(i \<mapsto> max (transferred - notTransferred) 0)))"

fun updateRows ::
  "bool \<Rightarrow> InvoiceItem list \<Rightarrow> (string \<Rightarrow> rat option) \<Rightarrow>
     InvoiceItem list \<times> (string \<Rightarrow> rat option)" where
  "updateRows cancelled [] transferMap = ([], transferMap)"
| "updateRows cancelled (row # rows) transferMap =
     (let (row', transferMap') = updateRow cancelled row transferMap;
          (rows', transferMap'') = updateRows cancelled rows transferMap'
      in (row' # rows', transferMap''))"

text \<open>
  Modelled from the spec: \<^verbatim>\<open>Invoice.getStockNotTransferred\<close> is not part of the source
  file; the spec has it recompute the aggregate as the sum of the line values.
\<close>

definition getStockNotTransferred :: "Invoice \<Rightarrow> rat" where
  "getStockNotTransferred invoice =
     sum_list (map notTransferredOf
       (case invoice_items invoice of None \<Rightarrow> [] | Some rows \<Rightarrow> rows))"

definition updateBackReference :: "StockTransfer \<Rightarrow> docs \<Rightarrow> error + docs" where
  "updateBackReference t ds =
     (if \<not> isCancelled t \<and> \<not> isSubmitted t then Inr ds
      else case backReference t of
        None \<Rightarrow> Inr ds
      | Some ref \<Rightarrow>
          if ref = [] then Inr ds
          else
            (let schema = (if isSales t then SalesInvoice else PurchaseInvoice) in
             case ds (schema, ref) of
               None \<Rightarrow> Inl PersistenceFailure
             | Some invoice \<Rightarrow>
                 (let transferMap = getTransferMap t;
                      invoice' = invoice\<lparr> invoice_items :=
                        map_option (\<lambda>rows. fst (updateRows (isCancelled t) rows transferMap))
                          (invoice_items invoice) \<rparr>;
                      notTransferred = getStockNotTransferred invoice'
                  in Inr (ds((schema, ref) \<mapsto>
                       invoice'\<lparr> invoice_stockNotTransferred := Some notTransferred \<rparr>)))))"

text \<open>
  The lifecycle hooks \<^verbatim>\<open>afterSubmit\<close> and \<^verbatim>\<open>afterCancel\<close> both end in
  \<^verbatim>\<open>_updateBackReference\<close>; a sequence of events is the sequence of the transfers
  whose hook runs, each in the state it has at that moment. An error ends the sequence.
\<close>

fun runEvents :: "StockTransfer list \<Rightarrow> docs \<Rightarrow> error + docs" where
  "runEvents [] ds = Inr ds"
| "runEvents (t # ts) ds =
     (case updateBackReference t ds of Inl e \<Rightarrow> Inl e | Inr ds' \<Rightarrow> runEvents ts ds')"

subsection \<open>Double arithmetic and inherited properties\<close>

text \<open>
  The definitions of the two preceding subsections add and subtract exactly and treat the
  transfer map as a finite map. The source runs on a JavaScript runtime, where two things
  are different, and where a property depends on them the following definitions are
  used. They follow the same source lines.

  Arithmetic. Every \<^verbatim>\<open>+\<close>, \<^verbatim>\<open>-\<close> and \<^verbatim>\<open>+=\<close> of the source is an operation on
  doubles: it returns the exact result rounded to a double. The rounding is the
  parameter \<open>fl\<close>: an operation \<^verbatim>\<open>a + b\<close> is \<open>fl (a + b)\<close>. \<^verbatim>\<open>Math.min\<close> and
  \<^verbatim>\<open>Math.max\<close> select one of their arguments and do not round. Results beyond the
  largest double, and \<^verbatim>\<open>NaN\<close>, stay outside the model.

  Objects. The transfer map is an object created by \<^verbatim>\<open>{}\<close>. Reading a property that
  the object does not own yields the member of that name of \<^verbatim>\<open>Object.prototype\<close>,
  when there is one (\<^verbatim>\<open>toString\<close>, \<^verbatim>\<open>constructor\<close>, ...); such a member is not a
  number, and \<^verbatim>\<open>+=\<close> turns it into a string. The names of these members are the
  parameter \<open>protoMember\<close>.
\<close>

record Runtime =
  fl :: "rat \<Rightarrow> rat"
  protoMember :: "string \<Rightarrow> bool"

text \<open>
  What a property of the transfer map holds: a number, or a value of another type (the
  inherited function, or the string made of it).
\<close>

datatype jsvalue = Number rat | NotNumber

text \<open>\<^verbatim>\<open>obj[k]\<close>, read through the prototype.\<close>

definition getProperty ::
  "Runtime \<Rightarrow> (string \<Rightarrow> jsvalue option) \<Rightarrow> string \<Rightarrow> jsvalue option" where
  "getProperty rt obj k =
     (case obj k of
        Some v \<Rightarrow> Some v
      | None \<Rightarrow> if protoMember rt k then Some NotNumber else None)"

text \<open>The value that \<^verbatim>\<open>v += q\<close> stores, for a number \<open>q\<close>.\<close>

definition addAssign :: "Runtime \<Rightarrow> jsvalue \<Rightarrow> rat \<Rightarrow> jsvalue" where
  "addAssign rt v q = (case v of Number a \<Rightarrow> Number (fl rt (a + q)) | NotNumber \<Rightarrow> NotNumber)"

text \<open>
  The callback of \<^verbatim>\<open>reduce\<close> in \<^verbatim>\<open>_getTransferMap\<close>:
  \<^verbatim>\<open>acc[item.item] ??= 0\<close> stores zero only when the property reads as undefined,
  then \<^verbatim>\<open>acc[item.item] += item.quantity\<close> adds to what the property reads as.
\<close>

definition transferMapStepJS ::
  "Runtime \<Rightarrow> (string \<Rightarrow> jsvalue option) \<Rightarrow> StockTransferItem \<Rightarrow>
     (string \<Rightarrow> jsvalue option)" where
  "transferMapStepJS rt acc it =
     (case item it of
        None \<Rightarrow> acc
      | Some i \<Rightarrow>
          if i = [] then acc
          else (case quantity it of
                  None \<Rightarrow> acc
                | Some q \<Rightarrow>
                    if q = 0 then acc
                    else (let current = (case getProperty rt acc i of
                                           None \<Rightarrow> Number 0
                                         | Some v \<Rightarrow> v)
                          in acc(i \<mapsto> addAssign rt current q))))"

definition getTransferMapJS :: "Runtime \<Rightarrow> StockTransfer \<Rightarrow> (string \<Rightarrow> jsvalue option)" where
  "getTransferMapJS rt t = foldl (transferMapStepJS rt) Map.empty (itemsOrEmpty t)"

text \<open>
  The body of the loop of \<^verbatim>\<open>_updateBackReference\<close>. The line is skipped unless
  \<^verbatim>\<open>typeof transferred\<close> is \<^verbatim>\<open>'number'\<close>. The residual of a cancel is
  \<^verbatim>\<open>transferred + notTransferred - quantity\<close>, two operations from left to right.
\<close>

definition updateRowJS ::
  "Runtime \<Rightarrow> bool \<Rightarrow> InvoiceItem \<Rightarrow> (string \<Rightarrow> jsvalue option) \<Rightarrow>
     InvoiceItem \<times> (string \<Rightarrow> jsvalue option)" where
  "updateRowJS rt cancelled row transferMap =
     (let i = row_item row;
          q = row_quantity row;
          notTransferred = notTransferredOf row
      in case getProperty rt transferMap i of
           Some (Number transferred) \<Rightarrow>
             if cancelled then
               (row\<lparr> row_stockNotTransferred :=
                       Some (min (fl rt (notTransferred + transferred)) q) \<rparr>,
                transferMap(i \<mapsto>
                   Number (max (fl rt (fl rt (transferred + notTransferred) - q)) 0)))
             else
               (row\<lparr> row_stockNotTransferred :=
                       Some (max (fl rt (notTransferred - transferred)) 0) \<rparr>,
                transferMap(i \<mapsto> Number (max (fl rt (transferred - notTransferred)) 0)))
         | _ \<Rightarrow> (row, transferMap))"

fun updateRowsJS ::
  "Runtime \<Rightarrow> bool \<Rightarrow> InvoiceItem list \<Rightarrow> (string \<Rightarrow> jsvalue option) \<Rightarrow>
     InvoiceItem list \<times> (string \<Rightarrow> jsvalue option)" where
  "updateRowsJS rt cancelled [] transferMap = ([], transferMap)"
| "updateRowsJS rt cancelled (row # rows) transferMap =
     (let (row', transferMap') = updateRowJS rt cancelled row transferMap;
          (rows', transferMap'') = updateRowsJS rt cancelled rows transferMap'
      in (row' # rows', transferMap''))"

definition updateBackReferenceJS :: "Runtime \<Rightarrow> StockTransfer \<Rightarrow> docs \<Rightarrow> error + docs" where
  "updateBackReferenceJS rt t ds =
     (if \<not> isCancelled t \<and> \<not> isSubmitted t then Inr ds
      else case backReference t of
        None \<Rightarrow> Inr ds
      | Some ref \<Rightarrow>
          if ref = [] then Inr ds
          else
            (let schema = (if isSales t then SalesInvoice else PurchaseInvoice) in
             case ds (schema, ref) of
               None \<Rightarrow> Inl PersistenceFailure
             | Some invoice \<Rightarrow>
                 (let transferMap = getTransferMapJS rt t;
                      invoice' = invoice\<lparr> invoice_items :=
                        map_option
                          (\<lambda>rows. fst (updateRowsJS rt (isCancelled t) rows transferMap))
                          (invoice_items invoice) \<rparr>;
                      notTransferred = getStockNotTransferred invoice'
                  in Inr (ds((schema, ref) \<mapsto>
                       invoice'\<lparr> invoice_stockNotTransferred := Some notTransferred \<rparr>)))))"

subsection \<open>Notions used to state the properties\<close>

text \<open>The amount of a posting: \<^verbatim>\<open>this.grandTotal ?? this.fyo.pesa(0)\<close>.\<close>

definition amountOf :: "StockTransfer \<Rightarrow> rat" where
  "amountOf t = (case grandTotal t of None \<Rightarrow> 0 | Some g \<Rightarrow> g)"

text \<open>A location field is populated when it is not \<^verbatim>\<open>undefined\<close>.\<close>

definition populated :: "string option \<Rightarrow> bool" where
  "populated l = (l \<noteq> None)"

definition exactlyOneLocation :: "TransferDetail \<Rightarrow> bool" where
  "exactlyOneLocation d = (populated (fromLocation d) \<noteq> populated (toLocation d))"

text \<open>
  The second required setting, and the message (if any) that a required setting
  gives rise to: none when the setting names an existing account.
\<close>

definition secondSetting :: "StockTransfer \<Rightarrow> string" where
  "secondSetting t = (if isSales t then ''costOfGoodsSold'' else ''stockReceivedButNotBilled'')"

definition problemMessage :: "Fyo \<Rightarrow> string \<Rightarrow> string option" where
  "problemMessage fyo setting =
     (case settingValue fyo setting of
        None \<Rightarrow> Some (notSetMessage fyo setting)
      | Some v \<Rightarrow>
          if v = [] then Some (notSetMessage fyo setting)
          else if db_exists fyo v then None
          else Some (notExistsMessage v))"

text \<open>
  The transfer map as the specification words it: every line with a defined item and a
  defined quantity, a zero quantity included, adds its quantity to the item's total.
  It is compared with \<^const>\<open>getTransferMapJS\<close> below.
\<close>

definition specTransferMapStep ::
  "(string \<Rightarrow> rat option) \<Rightarrow> StockTransferItem \<Rightarrow> (string \<Rightarrow> rat option)" where
  "specTransferMapStep acc it =
     (case item it of
        None \<Rightarrow> acc
      | Some i \<Rightarrow>
          (case quantity it of
             None \<Rightarrow> acc
           | Some q \<Rightarrow> acc(i \<mapsto> (case acc i of None \<Rightarrow> 0 | Some v \<Rightarrow> v) + q)))"

definition specTransferMap :: "StockTransfer \<Rightarrow> (string \<Rightarrow> rat option)" where
  "specTransferMap t = foldl specTransferMapStep Map.empty (itemsOrEmpty t)"

text \<open>
  What a line contributes to the total of item \<open>i\<close> in the source: its quantity, when
  its item is \<open>i\<close>, \<open>i\<close> is not empty and the quantity is defined and not zero.
\<close>

definition contribution :: "string \<Rightarrow> StockTransferItem \<Rightarrow> rat option" where
  "contribution i it =
     (if item it = Some i \<and> i \<noteq> [] then
        (case quantity it of None \<Rightarrow> None | Some q \<Rightarrow> if q = 0 then None else Some q)
      else None)"

definition contributions :: "string \<Rightarrow> StockTransferItem list \<Rightarrow> rat list" where
  "contributions i rows = List.map_filter (contribution i) rows"

text \<open>The bounds \<open>0 \<le> stockNotTransferred \<le> quantity\<close> of a line, and of every line.\<close>

definition rowInBounds :: "InvoiceItem \<Rightarrow> bool" where
  "rowInBounds row =
     (case row_stockNotTransferred row of
        None \<Rightarrow> False
      | Some n \<Rightarrow> 0 \<le> n \<and> n \<le> row_quantity row)"

definition rowsOf :: "Invoice \<Rightarrow> InvoiceItem list" where
  "rowsOf invoice = (case invoice_items invoice of None \<Rightarrow> [] | Some rows \<Rightarrow> rows)"

definition invoiceInBounds :: "Invoice \<Rightarrow> bool" where
  "invoiceInBounds invoice = list_all rowInBounds (rowsOf invoice)"

text \<open>Transfers and transfer maps without negative quantities.\<close>

definition lineNonNegative :: "StockTransferItem \<Rightarrow> bool" where
  "lineNonNegative it = (case quantity it of None \<Rightarrow> True | Some q \<Rightarrow> 0 \<le> q)"

definition transferNonNegative :: "StockTransfer \<Rightarrow> bool" where
  "transferNonNegative t = list_all lineNonNegative (itemsOrEmpty t)"

definition mapNonNegative :: "(string \<Rightarrow> rat option) \<Rightarrow> bool" where
  "mapNonNegative m = (\<forall>i v. m i = Some v \<longrightarrow> 0 \<le> v)"

text \<open>
  Submitting a transfer and then cancelling it: \<^verbatim>\<open>afterSubmit\<close> runs with the
  transfer submitted, \<^verbatim>\<open>afterCancel\<close> with the same transfer cancelled.
\<close>

definition submitThenCancelJS :: "Runtime \<Rightarrow> StockTransfer \<Rightarrow> docs \<Rightarrow> error + docs" where
  "submitThenCancelJS rt t ds =
     (case updateBackReferenceJS rt (t\<lparr> isSubmitted := True, isCancelled := False \<rparr>) ds of
        Inl e \<Rightarrow> Inl e
      | Inr ds' \<Rightarrow>
          updateBackReferenceJS rt (t\<lparr> isSubmitted := False, isCancelled := True \<rparr>) ds')"

text \<open>The key under which the linked invoice is loaded, and its lines in a result.\<close>

definition invoiceKey :: "StockTransfer \<Rightarrow> string \<Rightarrow> ModelNameEnum \<times> string" where
  "invoiceKey t ref = (if isSales t then SalesInvoice else PurchaseInvoice, ref)"

definition linesAt :: "ModelNameEnum \<times> string \<Rightarrow> error + docs \<Rightarrow> InvoiceItem list option" where
  "linesAt k r =
     (case r of
        Inl e \<Rightarrow> None
      | Inr ds \<Rightarrow> (case ds k of None \<Rightarrow> None | Some invoice \<Rightarrow> invoice_items invoice))"

text \<open>
  What is used of the rounding of doubles: a double is rounded to itself, rounding is
  monotone, and zero is a double. The rounding to nearest of the binary64 format has
  these three properties, and so has exact arithmetic (no rounding at all).
\<close>

definition rounding :: "(rat \<Rightarrow> rat) \<Rightarrow> bool" where
  "rounding r \<longleftrightarrow> (\<forall>x. r (r x) = r x) \<and> (\<forall>x y. x \<le> y \<longrightarrow> r x \<le> r y) \<and> r 0 = 0"

text \<open>The numbers of a transfer map are doubles.\<close>

definition numbersAreDoubles :: "Runtime \<Rightarrow> (string \<Rightarrow> jsvalue option) \<Rightarrow> bool" where
  "numbersAreDoubles rt m = (\<forall>i a. m i = Some (Number a) \<longrightarrow> fl rt a = a)"

text \<open>
  Two transfer maps hold numbers for the same items. The map of the submit and the map of
  the cancel start as the same map and stay so related along the lines.
\<close>

definition sameNumbers ::
  "(string \<Rightarrow> jsvalue option) \<Rightarrow> (string \<Rightarrow> jsvalue option) \<Rightarrow> bool" where
  "sameNumbers m m' = (\<forall>i. (\<exists>a. m i = Some (Number a)) \<longleftrightarrow> (\<exists>b. m' i = Some (Number b)))"

text \<open>
  A line that a submit followed by a cancel restores, when the quantity \<open>s\<close> of its item
  reaches it on submit and the quantity \<open>c\<close> on cancel. The value \<open>n\<close> of the line is at
  most its quantity, and what the cancel computes before it caps it at the quantity, the
  stored difference plus \<open>c\<close> if \<open>s \<le> n\<close> and \<open>c\<close> alone otherwise, is \<open>n\<close>, or is at
  least \<open>n\<close> on a line whose whole quantity is still owed. A line whose item has no number
  in either map is not touched; an item with a number in one map only does not occur
  with maps that hold numbers for the same items. For the lines of an invoice the
  condition is read along the two loops, each line against the maps that the lines
  before it have left.
\<close>

definition restorableLine ::
  "Runtime \<Rightarrow> jsvalue option \<Rightarrow> jsvalue option \<Rightarrow> InvoiceItem \<Rightarrow> bool" where
  "restorableLine rt onSubmit onCancel row =
     (case onSubmit of
        Some (Number s) \<Rightarrow>
          (case onCancel of
             Some (Number c) \<Rightarrow>
               (case row_stockNotTransferred row of
                  None \<Rightarrow> False
                | Some n \<Rightarrow>
                    n \<le> row_quantity row \<and>
                    (if s \<le> n
                     then fl rt (fl rt (n - s) + c) = n \<or>
                          (n = row_quantity row \<and> n \<le> fl rt (fl rt (n - s) + c))
                     else c = n \<or> (n = row_quantity row \<and> n \<le> c)))
           | _ \<Rightarrow> False)
      | _ \<Rightarrow> (case onCancel of Some (Number c) \<Rightarrow> False | _ \<Rightarrow> True))"

fun restorableLines ::
  "Runtime \<Rightarrow> (string \<Rightarrow> jsvalue option) \<Rightarrow> (string \<Rightarrow> jsvalue option) \<Rightarrow>
     InvoiceItem list \<Rightarrow> bool" where
  "restorableLines rt tmS tmC [] = True"
| "restorableLines rt tmS tmC (row # rows) =
     (restorableLine rt (getProperty rt tmS (row_item row)) (getProperty rt tmC (row_item row)) row \<and>
      restorableLines rt
        (snd (updateRowJS rt False row tmS))
        (snd (updateRowJS rt True (fst (updateRowJS rt False row tmS)) tmC))
        rows)"

subsection \<open>Example documents\<close>

definition transferLine :: "string \<Rightarrow> rat \<Rightarrow> StockTransferItem" where
  "transferLine i q =
     \<lparr> item = Some i, rate = Some 1, quantity = Some q, location = Some ''Stores'' \<rparr>"

definition lineNoLocation :: StockTransferItem where
  "lineNoLocation = \<lparr> item = Some ''A'', rate = Some 2, quantity = Some 4, location = None \<rparr>"

definition lineNoItem :: StockTransferItem where
  "lineNoItem = \<lparr> item = None, rate = Some 2, quantity = Some 9, location = Some ''Stores'' \<rparr>"

definition shipmentOf :: "StockTransferItem list \<Rightarrow> StockTransfer" where
  "shipmentOf rows =
     \<lparr> schemaName = Shipment, grandTotal = None, backReference = Some ''SINV-1'',
       items = Some rows, isSubmitted = True, isCancelled = False \<rparr>"

definition invoiceRow :: "string \<Rightarrow> rat \<Rightarrow> rat \<Rightarrow> InvoiceItem" where
  "invoiceRow i q n = \<lparr> row_item = i, row_quantity = q, row_stockNotTransferred = Some n \<rparr>"

definition invoiceOf :: "InvoiceItem list \<Rightarrow> Invoice" where
  "invoiceOf rows = \<lparr> invoice_items = Some rows, invoice_stockNotTransferred = None \<rparr>"

definition docsWith :: "InvoiceItem list \<Rightarrow> docs" where
  "docsWith rows = Map.empty((SalesInvoice, ''SINV-1'') \<mapsto> invoiceOf rows)"

definition fyoConfigured :: Fyo where
  "fyoConfigured =
     \<lparr> singles_InventorySettings = Some (\<lambda>s.
          if s = ''stockInHand'' then Some ''Stock In Hand''
          else if s = ''costOfGoodsSold'' then Some ''Cost of Goods Sold''
          else if s = ''stockReceivedButNotBilled'' then Some ''Stock Received But Not Billed''
          else None),
       fieldLabel = (\<lambda>s.
          if s = ''stockInHand'' then ''Stock In Hand Acc.''
          else if s = ''costOfGoodsSold'' then ''Cost Of Goods Sold Acc.''
          else ''Stock Received But Not Billed Acc.''),
       db_exists = (\<lambda>a. True),
       roundOffAccount = Some ''Rounded Off'' \<rparr>"

definition fyoUnconfigured :: Fyo where
  "fyoUnconfigured = fyoConfigured \<lparr> singles_InventorySettings := None \<rparr>"

text \<open>
  The names of the members of \<^verbatim>\<open>Object.prototype\<close>, and a runtime whose operations
  do not round: this is what double arithmetic does on quantities whose sums and
  differences are doubles again, such as the integers below \<open>2^53\<close> of the examples.
\<close>

definition objectPrototypeMembers :: "string list" where
  "objectPrototypeMembers =
     [''constructor'', ''hasOwnProperty'', ''isPrototypeOf'', ''propertyIsEnumerable'',
      ''toLocaleString'', ''toString'', ''valueOf'', ''__proto__'', ''__defineGetter__'',
      ''__defineSetter__'', ''__lookupGetter__'', ''__lookupSetter__'']"

definition exactRuntime :: Runtime where
  "exactRuntime = \<lparr> fl = (\<lambda>x. x), protoMember = (\<lambda>k. k \<in> set objectPrototypeMembers) \<rparr>"

section \<open>Transfer details\<close>

text \<open>
  Claim C9, as the source has it: the movement records are the lines in order; an
  outbound transfer (a shipment) copies the line's location into \<open>fromLocation\<close> and
  leaves \<open>toLocation\<close> unset, an inbound transfer copies it into \<open>toLocation\<close> and
  leaves \<open>fromLocation\<close> unset. So at most one of the two is populated, and exactly one
  whenever the line has a location.
\<close>

theorem getTransferDetails_locations:
  "length (getTransferDetails t) = length (itemsOrEmpty t) \<and>
   (\<forall>k < length (itemsOrEmpty t).
      (isSales t \<longrightarrow>
         fromLocation (getTransferDetails t ! k) = location (itemsOrEmpty t ! k) \<and>
         toLocation (getTransferDetails t ! k) = None) \<and>
      (\<not> isSales t \<longrightarrow>
         toLocation (getTransferDetails t ! k) = location (itemsOrEmpty t ! k) \<and>
         fromLocation (getTransferDetails t ! k) = None) \<and>
      (populated (location (itemsOrEmpty t ! k)) \<longrightarrow>
         exactlyOneLocation (getTransferDetails t ! k)))"
  by (simp add: getTransferDetails_def transferDetail_def exactlyOneLocation_def populated_def)

text \<open>A shipment of one line located in ``Stores'': \<open>fromLocation\<close> alone is set.\<close>

theorem getTransferDetails_locations_witness:
  "(0::nat) < length (itemsOrEmpty (shipmentOf [transferLine ''A'' 4])) \<and>
   isSales (shipmentOf [transferLine ''A'' 4]) \<and>
   populated (location (itemsOrEmpty (shipmentOf [transferLine ''A'' 4]) ! 0)) \<and>
   fromLocation (getTransferDetails (shipmentOf [transferLine ''A'' 4]) ! 0) = Some ''Stores'' \<and>
   toLocation (getTransferDetails (shipmentOf [transferLine ''A'' 4]) ! 0) = None \<and>
   exactlyOneLocation (getTransferDetails (shipmentOf [transferLine ''A'' 4]) ! 0)"
proof -
  let ?t = "shipmentOf [transferLine ''A'' 4]"
  have len: "(0::nat) < length (itemsOrEmpty ?t)"
    by (simp add: itemsOrEmpty_def shipmentOf_def)
  have sales: "isSales ?t"
    by (simp add: isSales_def shipmentOf_def)
  have loc: "location (itemsOrEmpty ?t ! 0) = Some ''Stores''"
    by (simp add: itemsOrEmpty_def shipmentOf_def transferLine_def)
  from getTransferDetails_locations [of ?t] len sales loc show ?thesis
    by (simp add: populated_def)
qed

text \<open>
  Claim C9 as stated fails for a line without a location: the record of such a line
  has neither \<open>fromLocation\<close> nor \<open>toLocation\<close>.
\<close>

theorem getTransferDetails_no_location_counterexample:
  "getTransferDetails (shipmentOf [lineNoLocation]) =
     [\<lparr> detail_item = Some ''A'', detail_rate = Some 2, detail_quantity = Some 4,
        fromLocation = None, toLocation = None \<rparr>] \<and>
   \<not> exactlyOneLocation (hd (getTransferDetails (shipmentOf [lineNoLocation])))"
  by (simp add: getTransferDetails_def itemsOrEmpty_def shipmentOf_def transferDetail_def
      isSales_def lineNoLocation_def exactlyOneLocation_def populated_def)

section \<open>Transfer map\<close>

lemma contributions_Nil: "contributions i [] = []"
  by (simp add: contributions_def)

lemma contributions_Cons:
  "contributions i (it # rows) =
     (case contribution i it of
        None \<Rightarrow> contributions i rows
      | Some q \<Rightarrow> q # contributions i rows)"
  by (cases "contribution i it") (simp_all add: contributions_def)

text \<open>
  The exact step is the step of the runtime when nothing is rounded and no name is
  inherited.
\<close>

lemma transferMapStep_instance:
  "transferMapStepJS \<lparr> fl = (\<lambda>x. x), protoMember = (\<lambda>k. False) \<rparr> (map_option Number \<circ> acc) it =
     map_option Number \<circ> transferMapStep acc it"
  by (auto simp: transferMapStepJS_def transferMapStep_def getProperty_def addAssign_def Let_def
      fun_eq_iff split: option.splits)

lemma transferMapStepJS_at:
  "transferMapStepJS rt acc it i =
     (case contribution i it of
        None \<Rightarrow> acc i
      | Some q \<Rightarrow>
          Some (addAssign rt (case getProperty rt acc i of None \<Rightarrow> Number 0 | Some v \<Rightarrow> v) q))"
  by (auto simp: transferMapStepJS_def contribution_def Let_def split: option.splits)

lemma foldl_transferMapStepJS_Number:
  assumes "\<not> protoMember rt i"
  shows "acc i = Some (Number a) \<Longrightarrow>
         foldl (transferMapStepJS rt) acc rows i =
           Some (Number (foldl (\<lambda>total q. fl rt (total + q)) a (contributions i rows)))"
proof (induction rows arbitrary: acc a)
  case Nil
  then show ?case by (simp add: contributions_Nil)
next
  case (Cons it rows)
  show ?case
  proof (cases "contribution i it")
    case None
    with Cons.prems have "transferMapStepJS rt acc it i = Some (Number a)"
      by (simp add: transferMapStepJS_at [of rt acc it i])
    with Cons.IH [of "transferMapStepJS rt acc it" a] None show ?thesis
      by (simp add: contributions_Cons)
  next
    case (Some q)
    with Cons.prems have "transferMapStepJS rt acc it i = Some (Number (fl rt (a + q)))"
      by (simp add: transferMapStepJS_at [of rt acc it i] getProperty_def addAssign_def)
    with Cons.IH [of "transferMapStepJS rt acc it" "fl rt (a + q)"] Some show ?thesis
      by (simp add: contributions_Cons)
  qed
qed

lemma foldl_transferMapStepJS_None:
  assumes "\<not> protoMember rt i"
  shows "acc i = None \<Longrightarrow>
         foldl (transferMapStepJS rt) acc rows i =
           (if contributions i rows = [] then None
            else Some (Number (foldl (\<lambda>total q. fl rt (total + q)) 0 (contributions i rows))))"
proof (induction rows arbitrary: acc)
  case Nil
  then show ?case by (simp add: contributions_Nil)
next
  case (Cons it rows)
  show ?case
  proof (cases "contribution i it")
    case None
    with Cons.prems have "transferMapStepJS rt acc it i = None"
      by (simp add: transferMapStepJS_at [of rt acc it i])
    with Cons.IH [of "transferMapStepJS rt acc it"] None show ?thesis
      by (simp add: contributions_Cons)
  next
    case (Some q)
    with Cons.prems assms have "transferMapStepJS rt acc it i = Some (Number (fl rt (0 + q)))"
      by (simp add: transferMapStepJS_at [of rt acc it i] getProperty_def addAssign_def)
    with foldl_transferMapStepJS_Number [OF assms, of "transferMapStepJS rt acc it"
        "fl rt (0 + q)" rows] Some
    show ?thesis
      by (simp add: contributions_Cons)
  qed
qed

lemma foldl_transferMapStepJS_inherited:
  assumes "protoMember rt i"
  shows "acc i = None \<or> acc i = Some NotNumber \<Longrightarrow>
         foldl (transferMapStepJS rt) acc rows i =
           (if contributions i rows = [] then acc i else Some NotNumber)"
proof (induction rows arbitrary: acc)
  case Nil
  then show ?case by (simp add: contributions_Nil)
next
  case (Cons it rows)
  show ?case
  proof (cases "contribution i it")
    case None
    with Cons.prems have s: "transferMapStepJS rt acc it i = acc i"
      by (simp add: transferMapStepJS_at [of rt acc it i])
    with Cons.prems have "transferMapStepJS rt acc it i = None \<or>
        transferMapStepJS rt acc it i = Some NotNumber" by simp
    with Cons.IH [of "transferMapStepJS rt acc it"] None s show ?thesis
      by (simp add: contributions_Cons)
  next
    case (Some q)
    with Cons.prems assms have s: "transferMapStepJS rt acc it i = Some NotNumber"
      by (auto simp: transferMapStepJS_at [of rt acc it i] getProperty_def addAssign_def)
    then have "transferMapStepJS rt acc it i = None \<or>
        transferMapStepJS rt acc it i = Some NotNumber" by simp
    with Cons.IH [of "transferMapStepJS rt acc it"] Some s show ?thesis
      by (simp add: contributions_Cons)
  qed
qed

text \<open>
  An item named like a member of \<^verbatim>\<open>Object.prototype\<close> never gets a number: its entry is
  what \<^verbatim>\<open>+=\<close> makes of the inherited member, and the reconciliation skips the lines of
  such an item.
\<close>

lemma getTransferMapJS_inherited:
  assumes "protoMember rt i"
  shows "getTransferMapJS rt t i =
     (if contributions i (itemsOrEmpty t) = [] then None else Some NotNumber)"
  unfolding getTransferMapJS_def
  using foldl_transferMapStepJS_inherited [OF assms, of Map.empty "itemsOrEmpty t"] by simp

text \<open>
  Claim C4, as the source has it: the map starts empty, and for an item that is not
  named like a member of \<^verbatim>\<open>Object.prototype\<close> the entry is the running total of the
  quantities of the lines that carry this item, the item not being empty, and a defined
  quantity other than zero: each such quantity is added to the total, starting from
  zero, in the order of the lines and by the addition of doubles. The item has no entry
  when there is no such line. Lines with an undefined or empty item, or an undefined or
  zero quantity, are skipped, and no error arises.
\<close>

theorem getTransferMapJS_adds_contributions:
  assumes "\<not> protoMember rt i"
  shows "getTransferMapJS rt t i =
     (if contributions i (itemsOrEmpty t) = [] then None
      else Some (Number (foldl (\<lambda>total q. fl rt (total + q)) 0
                           (contributions i (itemsOrEmpty t)))))"
  unfolding getTransferMapJS_def
  by (rule foldl_transferMapStepJS_None [OF assms]) simp

text \<open>Two lines of item A, a line without item and a line of quantity zero.\<close>

theorem getTransferMapJS_adds_contributions_witness:
  "\<not> protoMember exactRuntime ''A'' \<and> \<not> protoMember exactRuntime ''B'' \<and>
   getTransferMapJS exactRuntime
     (shipmentOf [transferLine ''A'' 4, lineNoItem, transferLine ''B'' 0, transferLine ''A'' 3])
     ''A'' = Some (Number 7) \<and>
   getTransferMapJS exactRuntime
     (shipmentOf [transferLine ''A'' 4, lineNoItem, transferLine ''B'' 0, transferLine ''A'' 3])
     ''B'' = None"
proof -
  have a: "\<not> protoMember exactRuntime ''A''" and b: "\<not> protoMember exactRuntime ''B''"
    by (simp_all add: exactRuntime_def objectPrototypeMembers_def)
  from
    getTransferMapJS_adds_contributions [OF a, of
      "shipmentOf [transferLine ''A'' 4, lineNoItem, transferLine ''B'' 0, transferLine ''A'' 3]"]
    getTransferMapJS_adds_contributions [OF b, of
      "shipmentOf [transferLine ''A'' 4, lineNoItem, transferLine ''B'' 0, transferLine ''A'' 3]"]
    a b
  show ?thesis
    by (simp add: itemsOrEmpty_def contributions_Cons contributions_Nil contribution_def
        transferLine_def lineNoItem_def shipmentOf_def exactRuntime_def)
qed

text \<open>
  Claim C4 as stated fails for a line of quantity zero: the source skips it, so the
  item has no entry, where the specification's wording gives it the entry zero.
\<close>

theorem getTransferMapJS_zero_quantity_counterexample:
  "getTransferMapJS exactRuntime (shipmentOf [transferLine ''A'' 0]) ''A'' = None \<and>
   specTransferMap (shipmentOf [transferLine ''A'' 0]) ''A'' = Some 0"
  by (simp add: getTransferMapJS_def specTransferMap_def itemsOrEmpty_def transferMapStepJS_def
      specTransferMapStep_def transferLine_def shipmentOf_def)

section \<open>Account validation\<close>

lemma collectMessages_append:
  "collectMessages fyo settings messages =
     messages @ List.map_filter (problemMessage fyo) settings"
proof (induction settings arbitrary: messages)
  case Nil
  show ?case by simp
next
  case (Cons setting settings)
  show ?case
    by (cases "settingValue fyo setting")
       (simp_all add: Cons.IH problemMessage_def notSet_def)
qed

lemma requiredSettings_eq: "requiredSettings t = [''stockInHand'', secondSetting t]"
  by (simp add: requiredSettings_def secondSetting_def)

lemma validateAccounts_cases:
  "validateAccounts fyo t = Inr () \<or> (\<exists>m. validateAccounts fyo t = Inl (ValidationError m))"
  by (simp add: validateAccounts_def Let_def)



text \<open>
  Claim C6: the required settings are \<open>stockInHand\<close> and, by direction,
  \<open>costOfGoodsSold\<close> or \<open>stockReceivedButNotBilled\<close>. Validation succeeds exactly
  when the collected list of messages is empty; the list holds, in order, one message for
  every required setting that is unset or names an account that does not exist; when it
  is not empty the one error raised is the list joined by blanks. In particular, when
  both required settings have a problem, the error carries both messages.
\<close>

theorem validateAccounts_aggregates:
  "(validateAccounts fyo t = Inr () \<longleftrightarrow> collectMessages fyo (requiredSettings t) [] = []) \<and>
   collectMessages fyo (requiredSettings t) [] =
     List.map_filter (problemMessage fyo) [''stockInHand'', secondSetting t] \<and>
   (collectMessages fyo (requiredSettings t) [] \<noteq> [] \<longrightarrow>
      validateAccounts fyo t =
        Inl (ValidationError (join '' '' (collectMessages fyo (requiredSettings t) [])))) \<and>
   (\<forall>m1 m2. problemMessage fyo ''stockInHand'' = Some m1 \<and>
            problemMessage fyo (secondSetting t) = Some m2 \<longrightarrow>
      validateAccounts fyo t = Inl (ValidationError (m1 @ '' '' @ m2)))"
  by (auto simp: validateAccounts_def Let_def collectMessages_append requiredSettings_eq)

text \<open>A shipment where no inventory settings exist: both accounts are reported.\<close>

theorem validateAccounts_aggregates_witness:
  "problemMessage fyoUnconfigured ''stockInHand''
     = Some ''Stock In Hand Acc. account not set in Inventory Settings.'' \<and>
   problemMessage fyoUnconfigured (secondSetting (shipmentOf []))
     = Some ''Cost Of Goods Sold Acc. account not set in Inventory Settings.'' \<and>
   collectMessages fyoUnconfigured (requiredSettings (shipmentOf [])) [] \<noteq> [] \<and>
   validateAccounts fyoUnconfigured (shipmentOf []) \<noteq> Inr () \<and>
   validateAccounts fyoUnconfigured (shipmentOf []) = Inl (ValidationError
     ''Stock In Hand Acc. account not set in Inventory Settings. Cost Of Goods Sold Acc. account not set in Inventory Settings.'')"
proof -
  have m1: "problemMessage fyoUnconfigured ''stockInHand''
     = Some ''Stock In Hand Acc. account not set in Inventory Settings.''"
    by (simp add: problemMessage_def settingValue_def fyoUnconfigured_def fyoConfigured_def
        notSetMessage_def)
  have m2: "problemMessage fyoUnconfigured (secondSetting (shipmentOf []))
     = Some ''Cost Of Goods Sold Acc. account not set in Inventory Settings.''"
    by (simp add: problemMessage_def settingValue_def fyoUnconfigured_def fyoConfigured_def
        notSetMessage_def secondSetting_def isSales_def shipmentOf_def)
  from validateAccounts_aggregates [of fyoUnconfigured "shipmentOf []"] m1 m2 show ?thesis
    by simp
qed

section \<open>Ledger posting\<close>

lemma getPosting_ok:
  "validateAccounts fyo t = Inr () \<Longrightarrow>
   getPosting fyo t = Inr (Some (makeRoundOffEntry fyo
     \<lparr> entries =
         (if isSales t then
            [\<lparr> account = settingValue fyo ''costOfGoodsSold'', amount = amountOf t,
               entry_side = Debit \<rparr>,
             \<lparr> account = settingValue fyo ''stockInHand'', amount = amountOf t,
               entry_side = Credit \<rparr>]
          else
            [\<lparr> account = settingValue fyo ''stockInHand'', amount = amountOf t,
               entry_side = Debit \<rparr>,
             \<lparr> account = settingValue fyo ''stockReceivedButNotBilled'', amount = amountOf t,
               entry_side = Credit \<rparr>]),
       roundOff = None \<rparr>))"
  by (simp add: getPosting_def Let_def debit_def credit_def newLedgerPosting_def getValue_def
      amountOf_def)

lemma getPosting_fail:
  "validateAccounts fyo t = Inl e \<Longrightarrow> getPosting fyo t = Inl e"
  by (simp add: getPosting_def)

lemma makeRoundOffEntry_entries: "entries (makeRoundOffEntry fyo p) = entries p"
  by (simp add: makeRoundOffEntry_def Let_def)

lemma makeRoundOffEntry_roundOff: "\<exists>r. roundOff (makeRoundOffEntry fyo p) = Some r"
  by (simp add: makeRoundOffEntry_def Let_def)

lemma makeRoundOffEntry_balanced:
  "totalDebit (makeRoundOffEntry fyo p) = totalCredit (makeRoundOffEntry fyo p)"
  by (simp add: makeRoundOffEntry_def Let_def totalDebit_def totalCredit_def allEntries_def
      sideTotal_def)

lemma fyoConfigured_valid: "validateAccounts fyoConfigured (shipmentOf rows) = Inr ()"
  by (simp add: validateAccounts_def requiredSettings_def isSales_def shipmentOf_def
      settingValue_def fyoConfigured_def notSet_def)

text \<open>
  Claim C2: for a transfer whose amount \<open>A\<close> (the total, or zero when the total is
  undefined) is not negative and whose accounts pass validation, \<open>getPosting\<close> returns
  a posting of exactly two primary entries, a debit of \<open>A\<close> followed by a credit of
  \<open>A\<close>, and a rounding entry, and the debits of the posting sum to the same as its
  credits. This covers \<open>A = 0\<close>: the two entries are there with amount zero.
\<close>

theorem getPosting_balanced:
  assumes "validateAccounts fyo t = Inr ()" and "0 \<le> amountOf t"
  shows "\<exists>p debitAccount creditAccount r.
           getPosting fyo t = Inr (Some p) \<and>
           entries p = [\<lparr> account = debitAccount, amount = amountOf t, entry_side = Debit \<rparr>,
                        \<lparr> account = creditAccount, amount = amountOf t, entry_side = Credit \<rparr>] \<and>
           roundOff p = Some r \<and>
           totalDebit p = totalCredit p"
proof -
  let ?p = "makeRoundOffEntry fyo
     \<lparr> entries =
         (if isSales t then
            [\<lparr> account = settingValue fyo ''costOfGoodsSold'', amount = amountOf t,
               entry_side = Debit \<rparr>,
             \<lparr> account = settingValue fyo ''stockInHand'', amount = amountOf t,
               entry_side = Credit \<rparr>]
          else
            [\<lparr> account = settingValue fyo ''stockInHand'', amount = amountOf t,
               entry_side = Debit \<rparr>,
             \<lparr> account = settingValue fyo ''stockReceivedButNotBilled'', amount = amountOf t,
               entry_side = Credit \<rparr>]),
       roundOff = None \<rparr>"
  have p: "getPosting fyo t = Inr (Some ?p)"
    by (rule getPosting_ok [OF assms(1)])
  obtain r where r: "roundOff ?p = Some r"
    using makeRoundOffEntry_roundOff by blast
  have b: "totalDebit ?p = totalCredit ?p"
    by (rule makeRoundOffEntry_balanced)
  have "\<exists>debitAccount creditAccount.
          entries ?p = [\<lparr> account = debitAccount, amount = amountOf t, entry_side = Debit \<rparr>,
                        \<lparr> account = creditAccount, amount = amountOf t, entry_side = Credit \<rparr>]"
    by (cases "isSales t") (simp_all add: makeRoundOffEntry_entries)
  with p r b show ?thesis by blast
qed

text \<open>A shipment without a total, the accounts configured: two entries of amount zero.\<close>

theorem getPosting_balanced_witness:
  "validateAccounts fyoConfigured (shipmentOf []) = Inr () \<and>
   (0::rat) \<le> amountOf (shipmentOf []) \<and>
   (\<exists>p debitAccount creditAccount r.
      getPosting fyoConfigured (shipmentOf []) = Inr (Some p) \<and>
      entries p = [\<lparr> account = debitAccount, amount = 0, entry_side = Debit \<rparr>,
                   \<lparr> account = creditAccount, amount = 0, entry_side = Credit \<rparr>] \<and>
      roundOff p = Some r \<and>
      totalDebit p = totalCredit p)"
proof -
  have v: "validateAccounts fyoConfigured (shipmentOf []) = Inr ()"
    by (rule fyoConfigured_valid)
  have a: "amountOf (shipmentOf []) = 0"
    by (simp add: amountOf_def shipmentOf_def)
  from getPosting_balanced [OF v] a v show ?thesis by simp
qed

text \<open>
  Claim C5, as the source has it: \<open>getPosting\<close> never returns \<^verbatim>\<open>null\<close>. Either
  validation fails and its error is raised, or validation succeeds and a posting is
  returned; an undefined total is no exception, its amount is zero.
\<close>

theorem getPosting_never_null:
  "getPosting fyo t \<noteq> Inr None \<and>
   ((\<exists>m. validateAccounts fyo t = Inl (ValidationError m) \<and>
          getPosting fyo t = Inl (ValidationError m)) \<or>
    (\<exists>p. validateAccounts fyo t = Inr () \<and> getPosting fyo t = Inr (Some p)))"
  using validateAccounts_cases [of fyo t]
  by (auto simp: getPosting_ok getPosting_fail)

text \<open>Without inventory settings the error of the validation is what comes back.\<close>

theorem getPosting_never_null_witness:
  "getPosting fyoUnconfigured (shipmentOf []) \<noteq> Inr None \<and>
   (\<exists>m. getPosting fyoUnconfigured (shipmentOf []) = Inl (ValidationError m))"
proof -
  have "validateAccounts fyoUnconfigured (shipmentOf []) \<noteq> Inr ()"
    by (simp add: validateAccounts_def requiredSettings_def isSales_def shipmentOf_def
        settingValue_def fyoUnconfigured_def fyoConfigured_def notSet_def)
  with getPosting_never_null [of fyoUnconfigured "shipmentOf []"] show ?thesis
    by auto
qed

text \<open>
  Claim C5 as stated fails for a transfer whose total is undefined: with the accounts
  configured, \<open>getPosting\<close> returns a posting of amount zero, not \<^verbatim>\<open>null\<close>.
\<close>

theorem getPosting_undefined_total_counterexample:
  "grandTotal (shipmentOf []) = None \<and>
   getPosting fyoConfigured (shipmentOf []) =
     Inr (Some \<lparr> entries =
                   [\<lparr> account = Some ''Cost of Goods Sold'', amount = 0, entry_side = Debit \<rparr>,
                    \<lparr> account = Some ''Stock In Hand'', amount = 0, entry_side = Credit \<rparr>],
                 roundOff =
                   Some \<lparr> account = Some ''Rounded Off'', amount = 0, entry_side = Debit \<rparr> \<rparr>)"
  by (simp add: getPosting_def validateAccounts_def requiredSettings_def isSales_def
      shipmentOf_def settingValue_def fyoConfigured_def notSet_def getValue_def Let_def
      debit_def credit_def newLedgerPosting_def makeRoundOffEntry_def sideTotal_def)



section \<open>Back-reference reconciliation\<close>

subsection \<open>One line, and the loop over the lines\<close>

lemma updateRow_item: "row_item (fst (updateRow c row tm)) = row_item row"
  by (simp add: updateRow_def Let_def split: option.splits)

lemma updateRow_quantity: "row_quantity (fst (updateRow c row tm)) = row_quantity row"
  by (simp add: updateRow_def Let_def split: option.splits)

lemma updateRows_Cons:
  "updateRows c (row # rows) tm =
     (fst (updateRow c row tm) # fst (updateRows c rows (snd (updateRow c row tm))),
      snd (updateRows c rows (snd (updateRow c row tm))))"
  by (simp add: split_beta Let_def)


lemma updateRows_items: "map row_item (fst (updateRows c rows tm)) = map row_item rows"
  by (induction rows arbitrary: tm)
     (simp_all add: updateRows_Cons updateRow_item del: updateRows.simps(2))

lemma updateRows_quantities:
  "map row_quantity (fst (updateRows c rows tm)) = map row_quantity rows"
  by (induction rows arbitrary: tm)
     (simp_all add: updateRows_Cons updateRow_quantity del: updateRows.simps(2))

subsection \<open>Bounds\<close>

lemma transferMapStep_nonneg:
  "mapNonNegative acc \<Longrightarrow> lineNonNegative it \<Longrightarrow> mapNonNegative (transferMapStep acc it)"
  by (auto simp: mapNonNegative_def lineNonNegative_def transferMapStep_def
      split: option.splits if_splits)

lemma foldl_transferMapStep_nonneg:
  "mapNonNegative acc \<Longrightarrow> list_all lineNonNegative rows \<Longrightarrow>
   mapNonNegative (foldl transferMapStep acc rows)"
  by (induction rows arbitrary: acc) (simp_all add: transferMapStep_nonneg)

lemma getTransferMap_nonneg:
  "transferNonNegative t \<Longrightarrow> mapNonNegative (getTransferMap t)"
proof -
  have "mapNonNegative Map.empty" by (simp add: mapNonNegative_def)
  then show "transferNonNegative t \<Longrightarrow> mapNonNegative (getTransferMap t)"
    unfolding getTransferMap_def transferNonNegative_def
    by (rule foldl_transferMapStep_nonneg)
qed

lemma updateRow_bounds:
  assumes "mapNonNegative tm" and "rowInBounds row"
  shows "rowInBounds (fst (updateRow c row tm)) \<and> mapNonNegative (snd (updateRow c row tm))"
proof (cases "tm (row_item row)")
  case None
  with assms show ?thesis by (simp add: updateRow_def Let_def)
next
  case (Some t)
  with assms(1) have "0 \<le> t" by (simp add: mapNonNegative_def)
  moreover from assms(2) obtain n where "row_stockNotTransferred row = Some n" "0 \<le> n"
      "n \<le> row_quantity row"
    by (auto simp: rowInBounds_def split: option.splits)
  ultimately have "rowInBounds (fst (updateRow c row tm))" using Some
    by (cases c) (simp_all add: updateRow_def Let_def rowInBounds_def notTransferredOf_def)
  moreover from Some assms(1) have "mapNonNegative (snd (updateRow c row tm))"
    by (simp add: updateRow_def Let_def mapNonNegative_def)
  ultimately show ?thesis ..
qed

lemma updateRows_bounds:
  "mapNonNegative tm \<Longrightarrow> list_all rowInBounds rows \<Longrightarrow>
   list_all rowInBounds (fst (updateRows c rows tm))"
proof (induction rows arbitrary: tm)
  case Nil
  show ?case by simp
next
  case (Cons row rows)
  from Cons.prems have b: "rowInBounds (fst (updateRow c row tm))"
      "mapNonNegative (snd (updateRow c row tm))"
    using updateRow_bounds [of tm row c] by simp_all
  from Cons.prems have "list_all rowInBounds rows" by simp
  from Cons.IH [OF b(2) this] b(1) show ?case
    by (simp add: updateRows_Cons del: updateRows.simps)
qed

text \<open>What one event does to the invoice stored under a key.\<close>

lemma updateBackReference_at:
  assumes "updateBackReference t ds = Inr ds'" and "ds k = Some invoice"
  shows "ds' k = Some invoice \<or>
         (\<exists>total. ds' k = Some (invoice
            \<lparr> invoice_items := map_option (\<lambda>rows.
                 fst (updateRows (isCancelled t) rows (getTransferMap t))) (invoice_items invoice),
              invoice_stockNotTransferred := total \<rparr>))"
  using assms
  by (auto simp: updateBackReference_def Let_def split: if_splits option.splits)

lemma updateBackReference_bounds:
  assumes "updateBackReference t ds = Inr ds'" and "transferNonNegative t"
    and "ds k = Some invoice" and "invoiceInBounds invoice"
  shows "\<exists>invoice'. ds' k = Some invoice' \<and> invoiceInBounds invoice' \<and>
           map row_item (rowsOf invoice') = map row_item (rowsOf invoice) \<and>
           map row_quantity (rowsOf invoice') = map row_quantity (rowsOf invoice)"
proof -
  from updateBackReference_at [OF assms(1,3)] show ?thesis
  proof
    assume "ds' k = Some invoice"
    with assms(4) show ?thesis by simp
  next
    assume "\<exists>total. ds' k = Some (invoice
            \<lparr> invoice_items := map_option (\<lambda>rows.
                 fst (updateRows (isCancelled t) rows (getTransferMap t))) (invoice_items invoice),
              invoice_stockNotTransferred := total \<rparr>)"
    then obtain total where k: "ds' k = Some (invoice
            \<lparr> invoice_items := map_option (\<lambda>rows.
                 fst (updateRows (isCancelled t) rows (getTransferMap t))) (invoice_items invoice),
              invoice_stockNotTransferred := total \<rparr>)"
      by blast
    show ?thesis
    proof (cases "invoice_items invoice")
      case None
      with k assms(4) show ?thesis by (simp add: invoiceInBounds_def rowsOf_def)
    next
      case (Some rows)
      with assms(4) have "list_all rowInBounds rows"
        by (simp add: invoiceInBounds_def rowsOf_def)
      from updateRows_bounds [OF getTransferMap_nonneg [OF assms(2)] this]
      show ?thesis using k Some
        by (simp add: invoiceInBounds_def rowsOf_def updateRows_items updateRows_quantities)
    qed
  qed
qed

text \<open>
  Claim C1: let every line of an invoice have \<open>0 \<le> stockNotTransferred \<le> quantity\<close>.
  After any sequence of reconciliation events, submits and cancels in any order, of
  transfers whose quantities are not negative, the invoice is still there with the same
  lines (items and quantities unchanged), and every line still has
  \<open>0 \<le> stockNotTransferred \<le> quantity\<close>.
\<close>

theorem stockNotTransferred_within_bounds:
  assumes "runEvents ts ds = Inr ds'" and "list_all transferNonNegative ts"
    and "ds k = Some invoice" and "invoiceInBounds invoice"
  shows "\<exists>invoice'. ds' k = Some invoice' \<and> invoiceInBounds invoice' \<and>
           map row_item (rowsOf invoice') = map row_item (rowsOf invoice) \<and>
           map row_quantity (rowsOf invoice') = map row_quantity (rowsOf invoice)"
  using assms
proof (induction ts arbitrary: ds invoice)
  case Nil
  then show ?case by simp
next
  case (Cons t ts)
  from Cons.prems(1) obtain ds1 where s1: "updateBackReference t ds = Inr ds1"
      and s2: "runEvents ts ds1 = Inr ds'"
    by (auto split: sum.splits)
  from Cons.prems(2) have nn: "transferNonNegative t" "list_all transferNonNegative ts"
    by simp_all
  from updateBackReference_bounds [OF s1 nn(1) Cons.prems(3,4)]
  obtain invoice1 where i1: "ds1 k = Some invoice1" "invoiceInBounds invoice1"
      "map row_item (rowsOf invoice1) = map row_item (rowsOf invoice)"
      "map row_quantity (rowsOf invoice1) = map row_quantity (rowsOf invoice)"
    by blast
  from Cons.IH [OF s2 nn(2) i1(1,2)] i1(3,4) show ?case by auto
qed
text \<open>
  A submit of four units of item A against a line of ten, followed by the cancel of the
  same transfer: the line stays within its bounds.
\<close>

theorem stockNotTransferred_within_bounds_witness:
  "\<exists>ds'. runEvents [shipmentOf [transferLine ''A'' 4],
                      (shipmentOf [transferLine ''A'' 4])
                        \<lparr> isSubmitted := False, isCancelled := True \<rparr>]
             (docsWith [invoiceRow ''A'' 10 10]) = Inr ds' \<and>
         list_all transferNonNegative
           [shipmentOf [transferLine ''A'' 4],
            (shipmentOf [transferLine ''A'' 4]) \<lparr> isSubmitted := False, isCancelled := True \<rparr>] \<and>
         docsWith [invoiceRow ''A'' 10 10] (SalesInvoice, ''SINV-1'')
           = Some (invoiceOf [invoiceRow ''A'' 10 10]) \<and>
         invoiceInBounds (invoiceOf [invoiceRow ''A'' 10 10]) \<and>
         (\<exists>invoice'. ds' (SalesInvoice, ''SINV-1'') = Some invoice' \<and>
                      invoiceInBounds invoice' \<and>
                      map row_quantity (rowsOf invoice') = [10])"
proof -
  let ?t = "shipmentOf [transferLine ''A'' 4]"
  let ?ts = "[?t, ?t \<lparr> isSubmitted := False, isCancelled := True \<rparr>]"
  let ?ds = "docsWith [invoiceRow ''A'' 10 10]"
  have "\<exists>ds'. runEvents ?ts ?ds = Inr ds'"
    by (simp add: updateBackReference_def Let_def isSales_def transferLine_def shipmentOf_def
        invoiceRow_def invoiceOf_def docsWith_def)
  then obtain ds' where run: "runEvents ?ts ?ds = Inr ds'" ..
  have nn: "list_all transferNonNegative ?ts"
    by (simp add: transferNonNegative_def lineNonNegative_def itemsOrEmpty_def transferLine_def
        shipmentOf_def)
  have at: "?ds (SalesInvoice, ''SINV-1'') = Some (invoiceOf [invoiceRow ''A'' 10 10])"
    by (simp add: docsWith_def)
  have inb: "invoiceInBounds (invoiceOf [invoiceRow ''A'' 10 10])"
    by (simp add: invoiceInBounds_def rowsOf_def rowInBounds_def invoiceOf_def invoiceRow_def)
  have q: "map row_quantity (rowsOf (invoiceOf [invoiceRow ''A'' 10 10])) = [10]"
    by (simp add: rowsOf_def invoiceOf_def invoiceRow_def)
  from stockNotTransferred_within_bounds [OF run nn at inb] q
  have inner: "\<exists>invoice'. ds' (SalesInvoice, ''SINV-1'') = Some invoice' \<and>
                      invoiceInBounds invoice' \<and>
                      map row_quantity (rowsOf invoice') = [10]"
    by auto
  show ?thesis
    by (intro exI [of _ ds'] conjI run nn at inb inner)
qed
subsection \<open>One line in double arithmetic\<close>

lemma rounding_nonneg: "rounding r \<Longrightarrow> 0 \<le> x \<Longrightarrow> 0 \<le> r x"
  unfolding rounding_def by metis

lemma rounding_nonpos: "rounding r \<Longrightarrow> x \<le> 0 \<Longrightarrow> r x \<le> 0"
  unfolding rounding_def by metis

lemma rounding_idem: "rounding r \<Longrightarrow> r (r x) = r x"
  unfolding rounding_def by blast

lemma rounding_zero: "rounding r \<Longrightarrow> r 0 = 0"
  unfolding rounding_def by blast

lemma rounding_max_zero: "rounding r \<Longrightarrow> r (max (r x) 0) = max (r x) 0"
  by (simp add: max_def rounding_idem rounding_zero)

lemma exactRuntime_rounding: "rounding (fl exactRuntime)"
  by (simp add: rounding_def exactRuntime_def)

lemma getProperty_Number:
  "getProperty rt tm i = Some (Number t) \<longleftrightarrow> tm i = Some (Number t)"
  by (auto simp: getProperty_def split: option.splits)

lemma updateRowJS_submit:
  "getProperty rt tm (row_item row) = Some (Number t) \<Longrightarrow>
   updateRowJS rt False row tm =
     (row\<lparr> row_stockNotTransferred := Some (max (fl rt (notTransferredOf row - t)) 0) \<rparr>,
      tm(row_item row \<mapsto> Number (max (fl rt (t - notTransferredOf row)) 0)))"
  by (simp add: updateRowJS_def Let_def)

lemma updateRowJS_cancel:
  "getProperty rt tm (row_item row) = Some (Number t) \<Longrightarrow>
   updateRowJS rt True row tm =
     (row\<lparr> row_stockNotTransferred :=
             Some (min (fl rt (notTransferredOf row + t)) (row_quantity row)) \<rparr>,
      tm(row_item row \<mapsto>
         Number (max (fl rt (fl rt (t + notTransferredOf row) - row_quantity row)) 0)))"
  by (simp add: updateRowJS_def Let_def)

lemma updateRowJS_skip:
  "getProperty rt tm (row_item row) = None \<or> getProperty rt tm (row_item row) = Some NotNumber \<Longrightarrow>
   updateRowJS rt c row tm = (row, tm)"
  by (auto simp: updateRowJS_def Let_def)

text \<open>
  The exact update of a line is the update of the runtime when nothing is rounded and no
  name is inherited.
\<close>

lemma updateRow_instance:
  "updateRowJS \<lparr> fl = (\<lambda>x. x), protoMember = (\<lambda>k. False) \<rparr> c row (map_option Number \<circ> tm) =
     (fst (updateRow c row tm), map_option Number \<circ> snd (updateRow c row tm))"
  by (cases "tm (row_item row)")
     (auto simp: updateRowJS_def updateRow_def getProperty_def Let_def fun_eq_iff add.commute)

subsection \<open>Submit, then cancel\<close>

lemma set_stockNotTransferred_eq:
  "(row\<lparr> row_stockNotTransferred := v \<rparr> = row) = (v = row_stockNotTransferred row)"
  by (cases row) auto

lemma updateRowsJS_Cons:
  "updateRowsJS rt c (row # rows) tm =
     (fst (updateRowJS rt c row tm) # fst (updateRowsJS rt c rows (snd (updateRowJS rt c row tm))),
      snd (updateRowsJS rt c rows (snd (updateRowJS rt c row tm))))"
  by (simp add: split_beta Let_def)

lemma getTransferMapJS_status:
  "getTransferMapJS rt (t\<lparr> isSubmitted := s, isCancelled := c \<rparr>) = getTransferMapJS rt t"
  by (simp add: getTransferMapJS_def itemsOrEmpty_def)

lemma updateRowJS_item: "row_item (fst (updateRowJS rt c row tm)) = row_item row"
  by (simp add: updateRowJS_def Let_def split: option.splits jsvalue.splits)

text \<open>
  A line after a submit that sees the quantity \<open>s\<close> of its item and a cancel that
  sees \<open>c\<close>.
\<close>

lemma submit_cancel_line:
  assumes "getProperty rt tmS (row_item row) = Some (Number s)"
    and "getProperty rt tmC (row_item row) = Some (Number c)"
  shows "fst (updateRowJS rt True (fst (updateRowJS rt False row tmS)) tmC) =
           row\<lparr> row_stockNotTransferred :=
                  Some (min (fl rt (max (fl rt (notTransferredOf row - s)) 0 + c))
                            (row_quantity row)) \<rparr>"
proof -
  let ?row' = "row\<lparr> row_stockNotTransferred := Some (max (fl rt (notTransferredOf row - s)) 0) \<rparr>"
  have s: "fst (updateRowJS rt False row tmS) = ?row'"
    by (simp add: updateRowJS_submit [OF assms(1)])
  have p: "getProperty rt tmC (row_item ?row') = Some (Number c)"
    using assms(2) by simp
  have c: "updateRowJS rt True ?row' tmC =
     (?row'\<lparr> row_stockNotTransferred :=
               Some (min (fl rt (notTransferredOf ?row' + c)) (row_quantity ?row')) \<rparr>,
      tmC(row_item ?row' \<mapsto>
         Number (max (fl rt (fl rt (c + notTransferredOf ?row') - row_quantity ?row')) 0)))"
    by (rule updateRowJS_cancel [OF p])
  have nt: "notTransferredOf ?row' = max (fl rt (notTransferredOf row - s)) 0"
    by (simp add: notTransferredOf_def)
  show ?thesis
    unfolding s c nt by simp
qed

lemma restored_value_iff:
  assumes r: "rounding r" and c: "r c = c"
  shows "min (r (max (r (n - s)) 0 + c)) q = n \<longleftrightarrow>
         n \<le> q \<and> (if s \<le> n then r (r (n - s) + c) = n \<or> (n = q \<and> n \<le> r (r (n - s) + c))
                   else c = n \<or> (n = q \<and> n \<le> c))"
proof (cases "s \<le> n")
  case True
  then have "0 \<le> r (n - s)" using rounding_nonneg [OF r, of "n - s"] by simp
  then have "max (r (n - s)) 0 = r (n - s)" by simp
  with True show ?thesis by (auto simp: min_def)
next
  case False
  then have "r (n - s) \<le> 0" using rounding_nonpos [OF r, of "n - s"] by simp
  then have "max (r (n - s)) 0 = 0" by simp
  with False c show ?thesis by (auto simp: min_def)
qed

lemma numbersAreDoubles_updateRowJS:
  assumes "rounding (fl rt)" and "numbersAreDoubles rt tm"
  shows "numbersAreDoubles rt (snd (updateRowJS rt c row tm))"
proof (cases "getProperty rt tm (row_item row)")
  case None
  with assms(2) show ?thesis by (simp add: updateRowJS_skip)
next
  case (Some v)
  show ?thesis
  proof (cases v)
    case NotNumber
    with Some assms(2) show ?thesis by (simp add: updateRowJS_skip)
  next
    case (Number t)
    with Some have p: "getProperty rt tm (row_item row) = Some (Number t)" by simp
    show ?thesis
      using assms(2) rounding_max_zero [OF assms(1)]
      by (cases c)
         (simp_all add: updateRowJS_cancel [OF p] updateRowJS_submit [OF p] numbersAreDoubles_def)
  qed
qed

lemma numbersAreDoubles_step:
  assumes "rounding (fl rt)" and "numbersAreDoubles rt acc"
  shows "numbersAreDoubles rt (transferMapStepJS rt acc it)"
  using assms(2) rounding_idem [OF assms(1)]
  by (auto simp: numbersAreDoubles_def transferMapStepJS_def Let_def addAssign_def
      split: option.splits jsvalue.splits if_splits)

lemma numbersAreDoubles_foldl:
  "rounding (fl rt) \<Longrightarrow> numbersAreDoubles rt acc \<Longrightarrow>
   numbersAreDoubles rt (foldl (transferMapStepJS rt) acc rows)"
  by (induction rows arbitrary: acc) (simp_all add: numbersAreDoubles_step)

lemma numbersAreDoubles_getTransferMapJS:
  assumes "rounding (fl rt)"
  shows "numbersAreDoubles rt (getTransferMapJS rt t)"
proof -
  have "numbersAreDoubles rt Map.empty" by (simp add: numbersAreDoubles_def)
  with assms show ?thesis
    unfolding getTransferMapJS_def by (rule numbersAreDoubles_foldl)
qed

lemma restorableLine_iff:
  assumes r: "rounding (fl rt)" and d: "numbersAreDoubles rt tmC" and sn: "sameNumbers tmS tmC"
  shows "fst (updateRowJS rt True (fst (updateRowJS rt False row tmS)) tmC) = row \<longleftrightarrow>
         restorableLine rt (getProperty rt tmS (row_item row)) (getProperty rt tmC (row_item row)) row"
proof (cases "\<exists>s. tmS (row_item row) = Some (Number s)")
  case True
  then obtain s where s: "tmS (row_item row) = Some (Number s)" by blast
  with sn obtain c where c: "tmC (row_item row) = Some (Number c)"
    unfolding sameNumbers_def by blast
  from s c have ps: "getProperty rt tmS (row_item row) = Some (Number s)"
    and pc: "getProperty rt tmC (row_item row) = Some (Number c)"
    by (simp_all add: getProperty_Number)
  from d c have fc: "fl rt c = c" by (simp add: numbersAreDoubles_def)
  show ?thesis
  proof (cases "row_stockNotTransferred row")
    case None
    then show ?thesis
      unfolding submit_cancel_line [OF ps pc] set_stockNotTransferred_eq
      by (simp add: restorableLine_def ps pc)
  next
    case (Some n)
    then have nn: "notTransferredOf row = n" by (simp add: notTransferredOf_def)
    show ?thesis
      unfolding submit_cancel_line [OF ps pc] set_stockNotTransferred_eq nn Some option.inject
        restored_value_iff [OF r fc]
      by (simp add: restorableLine_def ps pc Some)
  qed
next
  case False
  with sn have nc: "\<not> (\<exists>c. tmC (row_item row) = Some (Number c))"
    unfolding sameNumbers_def by blast
  have ps: "getProperty rt tmS (row_item row) = None \<or>
      getProperty rt tmS (row_item row) = Some NotNumber"
  proof (cases "getProperty rt tmS (row_item row)")
    case (Some v)
    with False show ?thesis by (cases v) (simp_all add: getProperty_Number)
  qed simp
  have pc: "getProperty rt tmC (row_item row) = None \<or>
      getProperty rt tmC (row_item row) = Some NotNumber"
  proof (cases "getProperty rt tmC (row_item row)")
    case (Some v)
    with nc show ?thesis by (cases v) (simp_all add: getProperty_Number)
  qed simp
  have "updateRowJS rt False row tmS = (row, tmS)" by (rule updateRowJS_skip [OF ps])
  moreover have "updateRowJS rt True row tmC = (row, tmC)" by (rule updateRowJS_skip [OF pc])
  ultimately show ?thesis using ps pc
    by (auto simp: restorableLine_def)
qed

lemma updateRowJS_snd_cases:
  "snd (updateRowJS rt c row tm) = tm \<or>
   (\<exists>a b. tm (row_item row) = Some (Number a) \<and>
      snd (updateRowJS rt c row tm) = tm(row_item row \<mapsto> Number b))"
proof (cases "getProperty rt tm (row_item row)")
  case None
  then show ?thesis by (simp add: updateRowJS_skip)
next
  case (Some v)
  show ?thesis
  proof (cases v)
    case NotNumber
    with Some show ?thesis by (simp add: updateRowJS_skip)
  next
    case (Number t)
    with Some have p: "getProperty rt tm (row_item row) = Some (Number t)" by simp
    then have "tm (row_item row) = Some (Number t)" by (simp add: getProperty_Number)
    then show ?thesis
      by (cases c) (auto simp: updateRowJS_cancel [OF p] updateRowJS_submit [OF p])
  qed
qed

lemma sameNumbers_step:
  assumes "sameNumbers tmS tmC"
  shows "sameNumbers (snd (updateRowJS rt False row tmS))
           (snd (updateRowJS rt True (fst (updateRowJS rt False row tmS)) tmC))"
proof -
  let ?rowS = "fst (updateRowJS rt False row tmS)"
  have i: "row_item ?rowS = row_item row" by (rule updateRowJS_item)
  from updateRowJS_snd_cases [of rt False row tmS]
    updateRowJS_snd_cases [of rt True ?rowS tmC] assms
  show ?thesis
    unfolding i sameNumbers_def by (elim disjE exE conjE) (simp_all, metis+)
qed

lemma restorableLines_iff:
  assumes r: "rounding (fl rt)"
  shows "numbersAreDoubles rt tmS \<Longrightarrow> numbersAreDoubles rt tmC \<Longrightarrow> sameNumbers tmS tmC \<Longrightarrow>
         fst (updateRowsJS rt True (fst (updateRowsJS rt False rows tmS)) tmC) = rows \<longleftrightarrow>
         restorableLines rt tmS tmC rows"
proof (induction rows arbitrary: tmS tmC)
  case Nil
  show ?case by simp
next
  case (Cons row rows)
  let ?tmS' = "snd (updateRowJS rt False row tmS)"
  let ?rowS = "fst (updateRowJS rt False row tmS)"
  let ?tmC' = "snd (updateRowJS rt True ?rowS tmC)"
  have dS: "numbersAreDoubles rt ?tmS'"
    by (rule numbersAreDoubles_updateRowJS [OF r Cons.prems(1)])
  have dC: "numbersAreDoubles rt ?tmC'"
    by (rule numbersAreDoubles_updateRowJS [OF r Cons.prems(2)])
  have sn: "sameNumbers ?tmS' ?tmC'"
    by (rule sameNumbers_step [OF Cons.prems(3)])
  have tail: "fst (updateRowsJS rt True (fst (updateRowsJS rt False rows ?tmS')) ?tmC') = rows \<longleftrightarrow>
         restorableLines rt ?tmS' ?tmC' rows"
    by (rule Cons.IH [OF dS dC sn])
  have head: "fst (updateRowJS rt True ?rowS tmC) = row \<longleftrightarrow>
         restorableLine rt (getProperty rt tmS (row_item row)) (getProperty rt tmC (row_item row)) row"
    by (rule restorableLine_iff [OF r Cons.prems(2,3)])
  show ?case
    by (simp add: updateRowsJS_Cons head tail del: updateRowsJS.simps(2))
qed

lemma sameNumbers_refl: "sameNumbers m m"
  by (simp add: sameNumbers_def)

text \<open>
  Claim C3, as the source has it. Let a line of value \<open>n\<close> and quantity \<open>q\<close> see the
  same quantity \<open>t\<close> of its item on submit and on cancel. The submit stores
  \<open>n' = max (n - t) 0\<close>, the cancel \<open>n'' = min (n' + t) q\<close>, both in double arithmetic,
  and \<open>n''\<close> is \<open>n\<close> again exactly when \<open>n \<le> q\<close> and one of these holds:
  \<open>t \<le> n\<close> and adding \<open>t\<close> back to the stored difference gives \<open>n\<close> (as it does
  whenever \<open>n - t\<close> is a double, for instance for integer quantities), or gives at least
  \<open>n\<close> on a line with \<open>n = q\<close>; or \<open>t\<close> exceeds \<open>n\<close> and \<open>n = q\<close>.
  For the whole invoice: submitting the transfer and cancelling it restores all lines
  exactly when every line in turn meets this condition for the quantity that reaches it
  on submit and the quantity that reaches it on cancel.
  For \<open>q = 10\<close>, \<open>n = 10\<close>, \<open>t = 4\<close> the line goes from 10 to 6 and back to 10.
\<close>

theorem submit_then_cancel_restores_exactly_when:
  assumes "rounding (fl rt)"
  shows "(getProperty rt transferMap (row_item row) = Some (Number t) \<and> fl rt t = t \<and>
          row_stockNotTransferred row = Some n \<and> row_quantity row = q \<longrightarrow>
            (fst (updateRowJS rt True (fst (updateRowJS rt False row transferMap)) transferMap)
               = row \<longleftrightarrow>
             n \<le> q \<and>
             (if t \<le> n
              then fl rt (fl rt (n - t) + t) = n \<or> (n = q \<and> n \<le> fl rt (fl rt (n - t) + t))
              else n = q))) \<and>
         (backReference tr = Some ref \<and> ref \<noteq> [] \<and> ds (invoiceKey tr ref) = Some invoice \<and>
          invoice_items invoice = Some rows \<longrightarrow>
            (linesAt (invoiceKey tr ref) (submitThenCancelJS rt tr ds) = Some rows \<longleftrightarrow>
             restorableLines rt (getTransferMapJS rt tr) (getTransferMapJS rt tr) rows))"
proof (intro conjI impI)
  assume a: "getProperty rt transferMap (row_item row) = Some (Number t) \<and> fl rt t = t \<and>
          row_stockNotTransferred row = Some n \<and> row_quantity row = q"
  then have nn: "notTransferredOf row = n" by (simp add: notTransferredOf_def)
  from a have p: "getProperty rt transferMap (row_item row) = Some (Number t)"
    and t: "fl rt t = t" by simp_all
  from a have q: "row_quantity row = q" and n: "row_stockNotTransferred row = Some n"
    by simp_all
  have "min (fl rt (max (fl rt (n - t)) 0 + t)) q = n \<longleftrightarrow>
             n \<le> q \<and>
             (if t \<le> n
              then fl rt (fl rt (n - t) + t) = n \<or> (n = q \<and> n \<le> fl rt (fl rt (n - t) + t))
              else n = q)"
    unfolding restored_value_iff [OF assms t] by auto
  then show "fst (updateRowJS rt True (fst (updateRowJS rt False row transferMap)) transferMap)
               = row \<longleftrightarrow>
             n \<le> q \<and>
             (if t \<le> n
              then fl rt (fl rt (n - t) + t) = n \<or> (n = q \<and> n \<le> fl rt (fl rt (n - t) + t))
              else n = q)"
    unfolding submit_cancel_line [OF p p] nn q set_stockNotTransferred_eq n option.inject .
next
  assume a: "backReference tr = Some ref \<and> ref \<noteq> [] \<and> ds (invoiceKey tr ref) = Some invoice \<and>
          invoice_items invoice = Some rows"
  have d: "numbersAreDoubles rt (getTransferMapJS rt tr)"
    by (rule numbersAreDoubles_getTransferMapJS [OF assms])
  have "fst (updateRowsJS rt True (fst (updateRowsJS rt False rows (getTransferMapJS rt tr)))
                (getTransferMapJS rt tr)) = rows \<longleftrightarrow>
        restorableLines rt (getTransferMapJS rt tr) (getTransferMapJS rt tr) rows"
    by (rule restorableLines_iff [OF assms d d sameNumbers_refl])
  with a show "linesAt (invoiceKey tr ref) (submitThenCancelJS rt tr ds) = Some rows \<longleftrightarrow>
             restorableLines rt (getTransferMapJS rt tr) (getTransferMapJS rt tr) rows"
    by (simp add: submitThenCancelJS_def updateBackReferenceJS_def Let_def linesAt_def
        invoiceKey_def isSales_def getTransferMapJS_status)
qed

text \<open>
  The instance of the claim, a line of ten, all owed, and a transfer of four; and two
  lines of item B, each of five and all owed, with a transfer of seven, which exceeds
  the first line.
\<close>

theorem submit_then_cancel_restores_exactly_when_witness:
  "rounding (fl exactRuntime) \<and>
   getProperty exactRuntime (getTransferMapJS exactRuntime (shipmentOf [transferLine ''A'' 4]))
     (row_item (invoiceRow ''A'' 10 10)) = Some (Number 4) \<and>
   fl exactRuntime 4 = 4 \<and>
   row_stockNotTransferred (invoiceRow ''A'' 10 10) = Some 10 \<and>
   row_quantity (invoiceRow ''A'' 10 10) = 10 \<and>
   fst (updateRowJS exactRuntime True
         (fst (updateRowJS exactRuntime False (invoiceRow ''A'' 10 10)
                (getTransferMapJS exactRuntime (shipmentOf [transferLine ''A'' 4]))))
         (getTransferMapJS exactRuntime (shipmentOf [transferLine ''A'' 4])))
     = invoiceRow ''A'' 10 10 \<and>
   backReference (shipmentOf [transferLine ''B'' 7]) = Some ''SINV-1'' \<and> ''SINV-1'' \<noteq> [] \<and>
   docsWith [invoiceRow ''B'' 5 5, invoiceRow ''B'' 5 5]
       (invoiceKey (shipmentOf [transferLine ''B'' 7]) ''SINV-1'')
     = Some (invoiceOf [invoiceRow ''B'' 5 5, invoiceRow ''B'' 5 5]) \<and>
   invoice_items (invoiceOf [invoiceRow ''B'' 5 5, invoiceRow ''B'' 5 5])
     = Some [invoiceRow ''B'' 5 5, invoiceRow ''B'' 5 5] \<and>
   restorableLines exactRuntime
     (getTransferMapJS exactRuntime (shipmentOf [transferLine ''B'' 7]))
     (getTransferMapJS exactRuntime (shipmentOf [transferLine ''B'' 7]))
     [invoiceRow ''B'' 5 5, invoiceRow ''B'' 5 5] \<and>
   linesAt (SalesInvoice, ''SINV-1'')
     (updateBackReferenceJS exactRuntime (shipmentOf [transferLine ''B'' 7])
        (docsWith [invoiceRow ''B'' 5 5, invoiceRow ''B'' 5 5]))
     = Some [invoiceRow ''B'' 5 0, invoiceRow ''B'' 5 3] \<and>
   linesAt (SalesInvoice, ''SINV-1'')
     (submitThenCancelJS exactRuntime (shipmentOf [transferLine ''B'' 7])
        (docsWith [invoiceRow ''B'' 5 5, invoiceRow ''B'' 5 5]))
     = Some [invoiceRow ''B'' 5 5, invoiceRow ''B'' 5 5] \<and>
   linesAt (SalesInvoice, ''SINV-1'')
     (updateBackReferenceJS exactRuntime (shipmentOf [transferLine ''A'' 4])
        (docsWith [invoiceRow ''A'' 10 10]))
     = Some [invoiceRow ''A'' 10 6] \<and>
   linesAt (SalesInvoice, ''SINV-1'')
     (submitThenCancelJS exactRuntime (shipmentOf [transferLine ''A'' 4])
        (docsWith [invoiceRow ''A'' 10 10]))
     = Some [invoiceRow ''A'' 10 10]"
proof -
  let ?tA = "shipmentOf [transferLine ''A'' 4]"
  let ?tB = "shipmentOf [transferLine ''B'' 7]"
  let ?rA = "invoiceRow ''A'' 10 10"
  let ?rB = "invoiceRow ''B'' 5 5"
  note run =
    updateBackReferenceJS_def Let_def linesAt_def getTransferMapJS_def itemsOrEmpty_def
    transferMapStepJS_def getProperty_def addAssign_def updateRowJS_def notTransferredOf_def
    isSales_def exactRuntime_def objectPrototypeMembers_def transferLine_def shipmentOf_def
    invoiceRow_def invoiceOf_def docsWith_def
  have r: "rounding (fl exactRuntime)" by (rule exactRuntime_rounding)
  have p: "getProperty exactRuntime (getTransferMapJS exactRuntime ?tA) (row_item ?rA)
             = Some (Number 4)"
    by (simp add: run)
  have f: "fl exactRuntime 4 = 4" by (simp add: exactRuntime_def)
  have n: "row_stockNotTransferred ?rA = Some 10" by (simp add: invoiceRow_def)
  have q: "row_quantity ?rA = 10" by (simp add: invoiceRow_def)
  have kA: "invoiceKey ?tA ''SINV-1'' = (SalesInvoice, ''SINV-1'')"
    by (simp add: invoiceKey_def isSales_def shipmentOf_def)
  have kB: "invoiceKey ?tB ''SINV-1'' = (SalesInvoice, ''SINV-1'')"
    by (simp add: invoiceKey_def isSales_def shipmentOf_def)
  have bA: "backReference ?tA = Some ''SINV-1''" by (simp add: shipmentOf_def)
  have bB: "backReference ?tB = Some ''SINV-1''" by (simp add: shipmentOf_def)
  have dA: "docsWith [?rA] (invoiceKey ?tA ''SINV-1'') = Some (invoiceOf [?rA])"
    unfolding kA by (simp add: docsWith_def)
  have dB: "docsWith [?rB, ?rB] (invoiceKey ?tB ''SINV-1'') = Some (invoiceOf [?rB, ?rB])"
    unfolding kB by (simp add: docsWith_def)
  have iA: "invoice_items (invoiceOf [?rA]) = Some [?rA]" by (simp add: invoiceOf_def)
  have iB: "invoice_items (invoiceOf [?rB, ?rB]) = Some [?rB, ?rB]" by (simp add: invoiceOf_def)
  have hA: "restorableLines exactRuntime (getTransferMapJS exactRuntime ?tA)
              (getTransferMapJS exactRuntime ?tA) [?rA]"
    by (simp add: restorableLine_def run)
  have hB: "restorableLines exactRuntime (getTransferMapJS exactRuntime ?tB)
              (getTransferMapJS exactRuntime ?tB) [?rB, ?rB]"
    by (simp add: restorableLine_def run)
  have sA: "linesAt (SalesInvoice, ''SINV-1'')
              (updateBackReferenceJS exactRuntime ?tA (docsWith [?rA]))
              = Some [invoiceRow ''A'' 10 6]"
    by (simp add: run)
  have sB: "linesAt (SalesInvoice, ''SINV-1'')
              (updateBackReferenceJS exactRuntime ?tB (docsWith [?rB, ?rB]))
              = Some [invoiceRow ''B'' 5 0, invoiceRow ''B'' 5 3]"
    by (simp add: run)
  note line = submit_then_cancel_restores_exactly_when [OF r,
      of "getTransferMapJS exactRuntime ?tA" ?rA 4 10 10, THEN conjunct1]
  note invA = submit_then_cancel_restores_exactly_when [OF r,
      of _ _ _ _ _ ?tA "''SINV-1''" "docsWith [?rA]" "invoiceOf [?rA]" "[?rA]", THEN conjunct2]
  note invB = submit_then_cancel_restores_exactly_when [OF r,
      of _ _ _ _ _ ?tB "''SINV-1''" "docsWith [?rB, ?rB]" "invoiceOf [?rB, ?rB]" "[?rB, ?rB]",
      THEN conjunct2]
  from line p f n q
  have l: "fst (updateRowJS exactRuntime True
         (fst (updateRowJS exactRuntime False ?rA (getTransferMapJS exactRuntime ?tA)))
         (getTransferMapJS exactRuntime ?tA)) = ?rA"
    by (simp add: exactRuntime_def)
  from invA bA dA iA hA kA
  have cA: "linesAt (SalesInvoice, ''SINV-1'')
              (submitThenCancelJS exactRuntime ?tA (docsWith [?rA])) = Some [?rA]"
    by simp
  from invB bB dB iB hB kB
  have cB: "linesAt (SalesInvoice, ''SINV-1'')
              (submitThenCancelJS exactRuntime ?tB (docsWith [?rB, ?rB])) = Some [?rB, ?rB]"
    by simp
  from r p f n q l bB dB iB hB sB cB sA cA show ?thesis by simp
qed

text \<open>
  Claim C3 as stated fails when the transfer moves more than a line still owes and the
  line is not owed in full: with \<open>q = 10\<close>, \<open>n = 3\<close> and \<open>t = 5\<close> the submit leaves 0
  and the cancel gives 5, not 3.
\<close>

theorem submit_then_cancel_overtransfer_counterexample:
  "linesAt (SalesInvoice, ''SINV-1'') (Inr (docsWith [invoiceRow ''A'' 10 3]))
     = Some [invoiceRow ''A'' 10 3] \<and>
   linesAt (SalesInvoice, ''SINV-1'')
     (updateBackReferenceJS exactRuntime (shipmentOf [transferLine ''A'' 5])
        (docsWith [invoiceRow ''A'' 10 3]))
     = Some [invoiceRow ''A'' 10 0] \<and>
   linesAt (SalesInvoice, ''SINV-1'')
     (submitThenCancelJS exactRuntime (shipmentOf [transferLine ''A'' 5])
        (docsWith [invoiceRow ''A'' 10 3]))
     = Some [invoiceRow ''A'' 10 5]"
  by (simp add: submitThenCancelJS_def updateBackReferenceJS_def Let_def linesAt_def
      getTransferMapJS_def itemsOrEmpty_def transferMapStepJS_def getProperty_def addAssign_def
      updateRowJS_def notTransferredOf_def isSales_def exactRuntime_def
      objectPrototypeMembers_def transferLine_def shipmentOf_def invoiceRow_def invoiceOf_def
      docsWith_def)

subsection \<open>The residual is threaded through the lines\<close>



subsection \<open>Conservation on one line\<close>

lemma submit_conservation_iff:
  assumes r: "rounding r"
  shows "(n - max (r (n - t)) 0 = t - max (r (t - n)) 0) \<longleftrightarrow>
         (if t \<le> n then r (n - t) = n - t else r (t - n) = t - n)"
proof (cases "t \<le> n")
  case True
  then have "0 \<le> r (n - t)" "r (t - n) \<le> 0"
    using rounding_nonneg [OF r, of "n - t"] rounding_nonpos [OF r, of "t - n"] by simp_all
  with True show ?thesis by (auto simp: max_def)
next
  case False
  then have "r (n - t) \<le> 0" "0 \<le> r (t - n)"
    using rounding_nonpos [OF r, of "n - t"] rounding_nonneg [OF r, of "t - n"] by simp_all
  with False show ?thesis by (auto simp: max_def)
qed

lemma cancel_conservation_iff:
  assumes r: "rounding r"
  shows "(min (r (n + t)) q - n = t - max (r (r (t + n) - q)) 0) \<longleftrightarrow>
         (if r (n + t) \<le> q then r (n + t) = n + t else r (r (n + t) - q) = n + t - q)"
proof (cases "r (n + t) \<le> q")
  case True
  then have "r (r (n + t) - q) \<le> 0"
    using rounding_nonpos [OF r, of "r (n + t) - q"] by simp
  with True show ?thesis by (auto simp: max_def min_def add.commute)
next
  case False
  then have "0 \<le> r (r (n + t) - q)"
    using rounding_nonneg [OF r, of "r (n + t) - q"] by simp
  with False show ?thesis by (auto simp: max_def min_def add.commute)
qed

text \<open>
  Claim C10, as the source has it. Let a line of prior value \<open>n\<close> and quantity \<open>q\<close>, with
  \<open>0 \<le> n \<le> q\<close>, be updated with the residual \<open>t\<close> of its item; write \<open>ns\<close>, \<open>ts\<close> for
  the line and the residual that a submit stores and \<open>nc\<close>, \<open>tc\<close> for those that a
  cancel stores, all computed in double arithmetic.
  On submit, \<open>ns = max (n - t) 0\<close> and \<open>ts = max (t - n) 0\<close>, and what is applied to the
  line is what is taken from the residual, \<open>n - ns = t - ts\<close>, exactly when the
  difference that is not negative (\<open>n - t\<close> or \<open>t - n\<close>) is computed without rounding;
  this is the same as saying that the difference between line and residual is kept,
  \<open>ns - ts = n - t\<close>.
  On cancel, \<open>nc = min (n + t) q\<close> and \<open>tc = max (t + n - q) 0\<close>, and
  \<open>nc - n = t - tc\<close> exactly when the sum \<open>n + t\<close> is computed without rounding, if it
  stays within \<open>q\<close>, and otherwise when the stored residual is \<open>n + t - q\<close>; this is the
  same as saying that the sum of line and residual is kept, \<open>nc + tc = n + t\<close>.
  With integer quantities nothing is rounded and all four equations hold.
\<close>

theorem updateRowJS_conservation:
  assumes "rounding (fl rt)"
    and "getProperty rt transferMap (row_item row) = Some (Number t)"
    and "notTransferredOf row = n" and "row_quantity row = q"
    and "0 \<le> n" and "n \<le> q"
  shows "\<exists>ns ts nc tc.
           row_stockNotTransferred (fst (updateRowJS rt False row transferMap)) = Some ns \<and>
           snd (updateRowJS rt False row transferMap) (row_item row) = Some (Number ts) \<and>
           ns = max (fl rt (n - t)) 0 \<and> ts = max (fl rt (t - n)) 0 \<and>
           (n - ns = t - ts \<longleftrightarrow>
              (if t \<le> n then fl rt (n - t) = n - t else fl rt (t - n) = t - n)) \<and>
           (ns - ts = n - t \<longleftrightarrow> n - ns = t - ts) \<and>
           row_stockNotTransferred (fst (updateRowJS rt True row transferMap)) = Some nc \<and>
           snd (updateRowJS rt True row transferMap) (row_item row) = Some (Number tc) \<and>
           nc = min (fl rt (n + t)) q \<and> tc = max (fl rt (fl rt (t + n) - q)) 0 \<and>
           (nc - n = t - tc \<longleftrightarrow>
              (if fl rt (n + t) \<le> q then fl rt (n + t) = n + t
               else fl rt (fl rt (n + t) - q) = n + t - q)) \<and>
           (nc + tc = n + t \<longleftrightarrow> nc - n = t - tc)"
proof -
  have s: "updateRowJS rt False row transferMap =
     (row\<lparr> row_stockNotTransferred := Some (max (fl rt (n - t)) 0) \<rparr>,
      transferMap(row_item row \<mapsto> Number (max (fl rt (t - n)) 0)))"
    using updateRowJS_submit [OF assms(2)] assms(3) by simp
  have c: "updateRowJS rt True row transferMap =
     (row\<lparr> row_stockNotTransferred := Some (min (fl rt (n + t)) q) \<rparr>,
      transferMap(row_item row \<mapsto> Number (max (fl rt (fl rt (t + n) - q)) 0)))"
    using updateRowJS_cancel [OF assms(2)] assms(3,4) by simp
  have e1: "n - max (fl rt (n - t)) 0 = t - max (fl rt (t - n)) 0 \<longleftrightarrow>
              (if t \<le> n then fl rt (n - t) = n - t else fl rt (t - n) = t - n)"
    by (rule submit_conservation_iff [OF assms(1)])
  have e2: "min (fl rt (n + t)) q - n = t - max (fl rt (fl rt (t + n) - q)) 0 \<longleftrightarrow>
              (if fl rt (n + t) \<le> q then fl rt (n + t) = n + t
               else fl rt (fl rt (n + t) - q) = n + t - q)"
    by (rule cancel_conservation_iff [OF assms(1)])
  have a1: "max (fl rt (n - t)) 0 - max (fl rt (t - n)) 0 = n - t \<longleftrightarrow>
            n - max (fl rt (n - t)) 0 = t - max (fl rt (t - n)) 0"
    by linarith
  have a2: "min (fl rt (n + t)) q + max (fl rt (fl rt (t + n) - q)) 0 = n + t \<longleftrightarrow>
            min (fl rt (n + t)) q - n = t - max (fl rt (fl rt (t + n) - q)) 0"
    by linarith
  show ?thesis
    apply (rule exI [of _ "max (fl rt (n - t)) 0"])
    apply (rule exI [of _ "max (fl rt (t - n)) 0"])
    apply (rule exI [of _ "min (fl rt (n + t)) q"])
    apply (rule exI [of _ "max (fl rt (fl rt (t + n) - q)) 0"])
    apply (simp only: s c fst_conv snd_conv e1 e2 a1 a2)
    apply simp
    done
qed

text \<open>A line of ten with six owed and a residual of eight, submitted and cancelled.\<close>

theorem updateRowJS_conservation_witness:
  "rounding (fl exactRuntime) \<and>
   getProperty exactRuntime (Map.empty(''A'' \<mapsto> Number 8)) (row_item (invoiceRow ''A'' 10 6))
     = Some (Number 8) \<and>
   notTransferredOf (invoiceRow ''A'' 10 6) = 6 \<and> row_quantity (invoiceRow ''A'' 10 6) = 10 \<and>
   (0::rat) \<le> 6 \<and> (6::rat) \<le> 10 \<and>
   (\<exists>ns ts nc tc.
      row_stockNotTransferred
        (fst (updateRowJS exactRuntime False (invoiceRow ''A'' 10 6)
               (Map.empty(''A'' \<mapsto> Number 8)))) = Some ns \<and>
      snd (updateRowJS exactRuntime False (invoiceRow ''A'' 10 6)
             (Map.empty(''A'' \<mapsto> Number 8)))
        (row_item (invoiceRow ''A'' 10 6)) = Some (Number ts) \<and>
      ns = 0 \<and> ts = 2 \<and> 6 - ns = 8 - ts \<and> ns - ts = 6 - 8 \<and>
      row_stockNotTransferred
        (fst (updateRowJS exactRuntime True (invoiceRow ''A'' 10 6)
               (Map.empty(''A'' \<mapsto> Number 8)))) = Some nc \<and>
      snd (updateRowJS exactRuntime True (invoiceRow ''A'' 10 6)
             (Map.empty(''A'' \<mapsto> Number 8)))
        (row_item (invoiceRow ''A'' 10 6)) = Some (Number tc) \<and>
      nc = 10 \<and> tc = 4 \<and> nc - 6 = 8 - tc \<and> nc + tc = 6 + 8)"
proof -
  have p: "getProperty exactRuntime (Map.empty(''A'' \<mapsto> Number 8))
             (row_item (invoiceRow ''A'' 10 6)) = Some (Number 8)"
    by (simp add: getProperty_def invoiceRow_def)
  have n: "notTransferredOf (invoiceRow ''A'' 10 6) = 6"
    by (simp add: notTransferredOf_def invoiceRow_def)
  have q: "row_quantity (invoiceRow ''A'' 10 6) = 10"
    by (simp add: invoiceRow_def)
  from updateRowJS_conservation [OF exactRuntime_rounding p n q]
  have "\<exists>ns ts nc tc.
      row_stockNotTransferred
        (fst (updateRowJS exactRuntime False (invoiceRow ''A'' 10 6)
               (Map.empty(''A'' \<mapsto> Number 8)))) = Some ns \<and>
      snd (updateRowJS exactRuntime False (invoiceRow ''A'' 10 6)
             (Map.empty(''A'' \<mapsto> Number 8)))
        (row_item (invoiceRow ''A'' 10 6)) = Some (Number ts) \<and>
      ns = 0 \<and> ts = 2 \<and> 6 - ns = 8 - ts \<and> ns - ts = 6 - 8 \<and>
      row_stockNotTransferred
        (fst (updateRowJS exactRuntime True (invoiceRow ''A'' 10 6)
               (Map.empty(''A'' \<mapsto> Number 8)))) = Some nc \<and>
      snd (updateRowJS exactRuntime True (invoiceRow ''A'' 10 6)
             (Map.empty(''A'' \<mapsto> Number 8)))
        (row_item (invoiceRow ''A'' 10 6)) = Some (Number tc) \<and>
      nc = 10 \<and> tc = 4 \<and> nc - 6 = 8 - tc \<and> nc + tc = 6 + 8"
    by (simp add: exactRuntime_def)
  with exactRuntime_rounding p n q show ?thesis by simp
qed

text \<open>
  Claim C10 as stated fails on submit: the sum of the line's value and the residual is
  not kept. For \<open>n = 10\<close> and \<open>t = 4\<close> the submit gives \<open>n' = 6\<close> and \<open>t' = 0\<close>, and
  \<open>6 + 0\<close> is not \<open>10 + 4\<close>.
\<close>

theorem updateRowJS_submit_sum_counterexample:
  "getProperty exactRuntime (Map.empty(''A'' \<mapsto> Number 4)) ''A'' = Some (Number 4) \<and>
   row_stockNotTransferred (invoiceRow ''A'' 10 10) = Some 10 \<and>
   row_stockNotTransferred
     (fst (updateRowJS exactRuntime False (invoiceRow ''A'' 10 10)
            (Map.empty(''A'' \<mapsto> Number 4)))) = Some 6 \<and>
   snd (updateRowJS exactRuntime False (invoiceRow ''A'' 10 10)
          (Map.empty(''A'' \<mapsto> Number 4))) ''A'' = Some (Number 0) \<and>
   (6::rat) + 0 \<noteq> 10 + 4"
  by (simp add: updateRowJS_def getProperty_def Let_def invoiceRow_def notTransferredOf_def
      exactRuntime_def)

end
